theory Spec2Isabelle
  imports Complex_Main
begin

section \<open>Python values\<close>

text \<open>
  The exceptions that the program raises itself or receives from the libraries it calls.
  Every constructor is a subclass of Python's \<open>Exception\<close>; \<open>GatedRepoError\<close> is a
  subclass of \<open>RepositoryNotFoundError\<close> in the hub client, which is why \<open>repo_check\<close>
  tests it first. \<open>ValueError v c\<close> is the error of an enum lookup: \<open>v\<close> is the value that
  is not a member, \<open>c\<close> the enum class. \<open>OtherError\<close> stands for every other exception
  of an external call (network and HTTP errors, \<open>OSError\<close>, ...).
\<close>

datatype exn =
    RuntimeError string
  | RuntimeWarning string
  | AttributeError string
  | IndexError
  | KeyError string
  | TypeError
  | AssertionError
  | ValueError string string
  | GatedRepoError string
  | RepositoryNotFoundError string
  | OtherError string

text \<open>\<open>str(e)\<close>, as an f-string prints an exception.\<close>

fun exn_str :: "exn \<Rightarrow> string" where
  "exn_str (RuntimeError m) = m"
| "exn_str (RuntimeWarning m) = m"
| "exn_str (AttributeError m) = m"
| "exn_str IndexError = ''list index out of range''"
| "exn_str (KeyError m) = m"
| "exn_str TypeError = ''''"
| "exn_str AssertionError = ''''"
| "exn_str (ValueError v c) = CHR 0x27 # v @ CHR 0x27 # '' is not a valid '' @ c"
| "exn_str (GatedRepoError m) = m"
| "exn_str (RepositoryNotFoundError m) = m"
| "exn_str (OtherError m) = m"

text \<open>
  A Python float by its exact value; \<open>Finite 0\<close> is the positive zero and \<open>NegZero\<close>
  the negative one, which compare equal. Only the comparison \<open>0 <= r <= 1\<close> is made on
  a float; every comparison with NaN is false.
\<close>

datatype pyfloat = Finite rat | NegZero | PosInf | NegInf | NaN

fun in_unit_interval :: "pyfloat \<Rightarrow> bool" where
  "in_unit_interval (Finite q) = (0 \<le> q \<and> q \<le> 1)"
| "in_unit_interval NegZero = True"
| "in_unit_interval PosInf = False"
| "in_unit_interval NegInf = False"
| "in_unit_interval NaN = False"

text \<open>An attribute of an object that may never have been assigned.\<close>

datatype 'a attr = Unset | Attr 'a

text \<open>\<open>str\<close> of an integer, as the f-strings format \<open>optimization\<close> and \<open>status\<close>.\<close>

definition digit_char :: "nat \<Rightarrow> char" where
  "digit_char d = ''0123456789'' ! d"

function str_of_nat :: "nat \<Rightarrow> string" where
  "str_of_nat n =
     (if n < 10 then [digit_char n] else str_of_nat (n div 10) @ [digit_char (n mod 10)])"
  by pat_completeness auto
termination
  by (relation "measure id") auto

definition str_of_int :: "int \<Rightarrow> string" where
  "str_of_int i = (if i < 0 then CHR ''-'' # str_of_nat (nat (- i)) else str_of_nat (nat i))"

text \<open>\<open>str\<close> of an optional string: \<open>None\<close> prints as the word None.\<close>

fun py_str :: "string option \<Rightarrow> string" where
  "py_str None = ''None''"
| "py_str (Some s) = s"

text \<open>\<open>s.split("/", 1)[1]\<close>: what follows the first slash; \<open>IndexError\<close> without one.\<close>

fun after_slash :: "string \<Rightarrow> string option" where
  "after_slash [] = None"
| "after_slash (c # cs) = (if c = CHR ''/'' then Some cs else after_slash cs)"

text \<open>\<open>str.upper\<close> on ASCII letters (the platform names are ASCII).\<close>

definition upper_char :: "char \<Rightarrow> char" where
  "upper_char c =
     (let n = (of_char c :: nat) in if 97 \<le> n \<and> n \<le> 122 then char_of (n - 32) else c)"

definition upper :: "string \<Rightarrow> string" where
  "upper s = map upper_char s"

section \<open>The outside world\<close>

text \<open>
  Everything the program does to its environment is an event of a trace, in the order
  of execution. The three engine calls record the status code the engine returned.
\<close>

datatype event =
    Print string
  | OsMakedirs string
  | ReadFile string
  | Prompt
  | SnapshotDownload string "string option"
  | LoadHuggingface string "string option" string int
  | LoadGguf string int
  | RkllmBuild int string string nat int
  | ExportRkllm string int
  | HfLogin string
  | HfWhoami string
  | HfAuthCheck string
  | CreateRepo string
  | ModelCardLoad string
  | ModelCardSave string string
  | CopyTree string string
  | UploadFolder string string

text \<open>
  The target platforms of the command, an enum whose members are strings. Comparison
  with a string uses the value of the member.
\<close>

datatype Platform = rk3588 | rk3576

fun platform_value :: "Platform \<Rightarrow> string" where
  "platform_value rk3588 = ''rk3588''"
| "platform_value rk3576 = ''rk3576''"

text \<open>
  The answers of the external collaborators (the hub client, the build engine, the
  operating system, the user at the prompt), as functions of the arguments of the call.
  \<open>float_str\<close> and \<open>platform_str\<close> are what an f-string makes of a float and of a
  member of the platform enum: the interpreter formats such a member as its value
  (\<open>rk3588\<close>) up to Python 3.10 and as \<open>Platform.rk3588\<close> from Python 3.11 on.
  The program is verified for every such world.
\<close>

record world =
  env_home :: "string option"
  makedirs_error :: "string \<Rightarrow> exn option"
  read_file :: "string \<Rightarrow> exn + string"
  prompt_token :: "string option"
  float_str :: "pyfloat \<Rightarrow> string"
  platform_str :: "Platform \<Rightarrow> string"
  hf_login :: "string \<Rightarrow> exn option"
  hf_whoami :: "string \<Rightarrow> exn + string"
  hf_auth_check :: "string \<Rightarrow> exn option"
  snapshot_download :: "string \<Rightarrow> string option \<Rightarrow> exn + string"
  load_huggingface :: "string \<Rightarrow> string option \<Rightarrow> string \<Rightarrow> int"
  load_gguf :: "string \<Rightarrow> int"
  rkllm_build :: "int \<Rightarrow> string \<Rightarrow> string \<Rightarrow> nat \<Rightarrow> int"
  export_rkllm :: "string \<Rightarrow> int"
  create_repo :: "string \<Rightarrow> exn + string"
  card_load :: "string \<Rightarrow> exn + string \<times> string"
  card_save :: "string \<Rightarrow> string \<Rightarrow> exn option"
  copytree :: "string \<Rightarrow> string \<Rightarrow> exn option"
  upload_folder :: "string \<Rightarrow> string \<Rightarrow> exn option"

text \<open>
  A path as the operating system resolves it: whether it starts at the root, and its
  components. Empty components and \<open>.\<close> are dropped, so that \<open>./models/x/\<close> and
  \<open>models/x\<close> are one path; \<open>..\<close> and symbolic links are not resolved. The file system
  is the set of the paths that exist.
\<close>

type_synonym path = "bool \<times> string list"

fun split_slash :: "string \<Rightarrow> string list" where
  "split_slash [] = [[]]"
| "split_slash (c # cs) =
     (if c = CHR ''/'' then [] # split_slash cs
      else (case split_slash cs of [] \<Rightarrow> [[c]] | x # xs \<Rightarrow> (c # x) # xs))"

definition norm_path :: "string \<Rightarrow> path" where
  "norm_path s = (take 1 s = ''/'', filter (\<lambda>c. c \<noteq> [] \<and> c \<noteq> ''.'') (split_slash s))"

text \<open>
  \<open>os.path.exists\<close>: the empty string names nothing; the root and the working
  directory always exist.
\<close>

definition exists_path :: "string \<Rightarrow> path set \<Rightarrow> bool" where
  "exists_path s fs = (s \<noteq> [] \<and> (snd (norm_path s) = [] \<or> norm_path s \<in> fs))"

text \<open>The directories that exist after \<open>os.makedirs\<close>: the path and each of its parents.\<close>

fun nonempty_prefixes :: "'a list \<Rightarrow> 'a list list" where
  "nonempty_prefixes [] = []"
| "nonempty_prefixes (x # xs) = [x] # map ((#) x) (nonempty_prefixes xs)"

definition made_dirs :: "string \<Rightarrow> path set" where
  "made_dirs s = set (map (Pair (fst (norm_path s))) (nonempty_prefixes (snd (norm_path s))))"

text \<open>
  A statement of the program runs on the file system and gives the events it caused,
  the file system afterwards, and an exception or a value.
\<close>

type_synonym 'a prog = "path set \<Rightarrow> event list \<times> path set \<times> (exn + 'a)"

definition ret :: "'a \<Rightarrow> 'a prog" where
  "ret x = (\<lambda>fs. ([], fs, Inr x))"

definition raise :: "exn \<Rightarrow> 'a prog" where
  "raise e = (\<lambda>fs. ([], fs, Inl e))"

definition lift :: "exn + 'a \<Rightarrow> 'a prog" where
  "lift r = (\<lambda>fs. ([], fs, r))"

definition say :: "string \<Rightarrow> unit prog" where
  "say s = (\<lambda>fs. ([Print s], fs, Inr ()))"

definition call :: "event \<Rightarrow> exn + 'a \<Rightarrow> 'a prog" where
  "call ev r = (\<lambda>fs. ([ev], fs, r))"

text \<open>Sequencing: an exception of the first statement skips the second.\<close>

definition bind :: "'a prog \<Rightarrow> ('a \<Rightarrow> 'b prog) \<Rightarrow> 'b prog" where
  "bind f g = (\<lambda>fs.
     case f fs of
       (evs, fs', Inl e) \<Rightarrow> (evs, fs', Inl e)
     | (evs, fs', Inr x) \<Rightarrow> (case g x fs' of (evs', fs'', r) \<Rightarrow> (evs @ evs', fs'', r)))"

text \<open>
  \<open>try: f except ...: h\<close>. The handler function answers \<open>None\<close> for an exception that
  no \<open>except\<close> clause matches, which then propagates.
\<close>

definition catch :: "'a prog \<Rightarrow> (exn \<Rightarrow> 'a prog option) \<Rightarrow> 'a prog" where
  "catch f h = (\<lambda>fs.
     case f fs of
       (evs, fs', Inr x) \<Rightarrow> (evs, fs', Inr x)
     | (evs, fs', Inl e) \<Rightarrow>
         (case h e of
            None \<Rightarrow> (evs, fs', Inl e)
          | Some k \<Rightarrow> (case k fs' of (evs', fs'', r) \<Rightarrow> (evs @ evs', fs'', r))))"

definition path_exists :: "string \<Rightarrow> bool prog" where
  "path_exists path = (\<lambda>fs. ([], fs, Inr (exists_path path fs)))"

definition os_makedirs :: "world \<Rightarrow> string \<Rightarrow> unit prog" where
  "os_makedirs w path = (\<lambda>fs.
     case makedirs_error w path of
       None \<Rightarrow> ([OsMakedirs path], fs \<union> made_dirs path, Inr ())
     | Some e \<Rightarrow> ([OsMakedirs path], fs, Inl e))"

section \<open>RKLLMRemotePipeline\<close>

record pipeline =
  model_id :: string
  lora_id :: "string option"
  platform :: string
  qtype :: string
  hybrid_rate :: string
  library_type :: string
  optimization :: int

text \<open>
  The attributes that \<open>build_vars\<close> assigns. \<open>npu_cores\<close> is \<open>None\<close> when the platform is
  neither of the two known ones and the attribute is never assigned; \<open>lorapath\<close> is
  assigned only in the branch without an adapter.
\<close>

record vars =
  npu_cores :: "nat option"
  device :: string
  model_name :: string
  model_dir :: string
  name_suffix :: string
  lora_name :: "string option"
  lora_dir :: "string option"
  lorapath :: "string option attr"
  export_name :: string
  export_path :: string
  rkllm_version :: string

definition mkpath :: "world \<Rightarrow> string \<Rightarrow> unit prog" where
  "mkpath w path =
     catch
       (bind (path_exists path) (\<lambda>ex.
          if \<not> ex then bind (os_makedirs w path) (\<lambda>_. say (''mkdir'd '' @ path))
          else say (''Path '' @ path @ '' already exists! Great job!'')))
       (\<lambda>e. case e of
          RuntimeError m \<Rightarrow>
            Some (say (''Can't create paths for importing and exporting model.\<newline>'' @ m))
        | _ \<Rightarrow> None)"

text \<open>The string that \<open>build_vars\<close> assigns to \<open>name_suffix\<close>.\<close>

definition name_template :: "pipeline \<Rightarrow> string" where
  "name_template p =
     platform p @ ''-'' @ qtype p @ ''-opt-'' @ str_of_int (optimization p)
     @ ''-hybrid-ratio-'' @ hybrid_rate p"

definition build_vars :: "pipeline \<Rightarrow> exn + vars" where
  "build_vars p =
     (let cores = (if platform p = ''rk3588'' then Some 3
                   else if platform p = ''rk3576'' then Some 2 else None)
      in case after_slash (model_id p) of
        None \<Rightarrow> Inl IndexError
      | Some mname \<Rightarrow>
          (let suffix = name_template p
           in case lora_id p of
             None \<Rightarrow> Inl (AttributeError ''split'')
           | Some lid \<Rightarrow>
               if lid = '''' then
                 Inr \<lparr>npu_cores = cores, device = ''cpu'', model_name = mname,
                      model_dir = ''./models/'' @ mname @ ''/'', name_suffix = suffix,
                      lora_name = None, lora_dir = None, lorapath = Attr None,
                      export_name = mname @ ''-'' @ suffix,
                      export_path = ''./models/'' @ mname @ ''-'' @ platform p @ ''/'',
                      rkllm_version = ''1.1.4''\<rparr>
               else
                 (case after_slash lid of
                    None \<Rightarrow> Inl IndexError
                  | Some lname \<Rightarrow>
                      Inr \<lparr>npu_cores = cores, device = ''cpu'', model_name = mname,
                           model_dir = ''./models/'' @ mname @ ''/'', name_suffix = suffix,
                           lora_name = Some lname, lora_dir = Some (''./models/'' @ lname @ ''/''),
                           lorapath = Unset,
                           export_name = mname @ ''-'' @ lname @ ''-'' @ suffix,
                           export_path =
                             ''./models/'' @ mname @ ''-'' @ lname @ ''-'' @ platform p @ ''/'',
                           rkllm_version = ''1.1.4''\<rparr>)))"

text \<open>
  The body of \<open>remote_pipeline_to_local\<close>, statement by statement. The import of the
  engine's module and the construction of the engine object are taken to succeed. The
  adapter step
  gives the value of the attribute \<open>lorapath\<close> afterwards. Its test is on \<open>None\<close>,
  while \<open>build_vars\<close> tests the empty string. Its handler is a bare \<open>except\<close>; the
  comparison \<open>self.lorapath == None\<close> in it reads the attribute and assigns nothing.
\<close>

definition download_lora :: "world \<Rightarrow> pipeline \<Rightarrow> vars \<Rightarrow> string option attr prog" where
  "download_lora w p v =
     (case lora_id p of
        None \<Rightarrow> bind (say ''LoRA is None - skipping download'') (\<lambda>_. ret (lorapath v))
      | Some lid \<Rightarrow>
          bind (say (''Downloading LoRA: '' @ lid @ '' from HuggingFace to ''
                     @ py_str (lora_dir v))) (\<lambda>_.
          catch
            (bind (call (SnapshotDownload lid (lora_dir v)) (snapshot_download w lid (lora_dir v)))
               (\<lambda>path. ret (Attr (Some path))))
            (\<lambda>e. Some
               (bind (say ''Downloading LoRA failed. Omitting from export.'') (\<lambda>_.
                  case lorapath v of
                    Unset \<Rightarrow> raise (AttributeError ''lorapath'')
                  | Attr x \<Rightarrow> ret (Attr x))))))"

definition load_model :: "world \<Rightarrow> pipeline \<Rightarrow> vars \<Rightarrow> string \<Rightarrow> string option attr \<Rightarrow> unit prog" where
  "load_model w p v modelpath lp =
     (if library_type p = ''HF'' then
        bind (say ''Have to load model for each config'') (\<lambda>_.
        case lp of
          Unset \<Rightarrow> raise (AttributeError ''lorapath'')
        | Attr l \<Rightarrow>
            bind (call (LoadHuggingface modelpath l (device v)
                          (load_huggingface w modelpath l (device v)))
                    (Inr (load_huggingface w modelpath l (device v)))) (\<lambda>status.
            if status \<noteq> 0 then raise (RuntimeError (''Failed to load model: '' @ str_of_int status))
            else say (model_name v @ '' loaded successfully!'')))
      else if library_type p = ''GGUF'' then
        bind (say ''Have to load model for each config'') (\<lambda>_.
        bind (call (LoadGguf modelpath (load_gguf w modelpath)) (Inr (load_gguf w modelpath)))
          (\<lambda>status.
        if status \<noteq> 0 then raise (RuntimeError (''Failed to load model: '' @ str_of_int status))
        else say (model_name v @ '' loaded successfully!'')))
      else
        bind (say ''Model must be of type HF (HuggingFace) or GGUF.'') (\<lambda>_.
        raise (RuntimeError ''Must be something wrong with the selector! Try again!'')))"

definition build_model :: "world \<Rightarrow> pipeline \<Rightarrow> vars \<Rightarrow> unit prog" where
  "build_model w p v =
     bind (say (''Building '' @ model_name v @ '' with '' @ qtype p
                @ '' quantization and optimization level '' @ str_of_int (optimization p))) (\<lambda>_.
     case npu_cores v of
       None \<Rightarrow> raise (AttributeError ''npu_cores'')
     | Some n \<Rightarrow>
         bind (call (RkllmBuild (optimization p) (qtype p) (platform p) n
                       (rkllm_build w (optimization p) (qtype p) (platform p) n))
                 (Inr (rkllm_build w (optimization p) (qtype p) (platform p) n))) (\<lambda>status.
         if status \<noteq> 0 then raise (RuntimeError (''Failed to build model: '' @ str_of_int status))
         else say (model_name v @ '' built successfully!'')))"

definition export_model :: "world \<Rightarrow> vars \<Rightarrow> unit prog" where
  "export_model w v =
     bind (call (ExportRkllm (export_path v @ export_name v @ ''.rkllm'')
                   (export_rkllm w (export_path v @ export_name v @ ''.rkllm'')))
             (Inr (export_rkllm w (export_path v @ export_name v @ ''.rkllm'')))) (\<lambda>status.
     if status \<noteq> 0 then raise (RuntimeError (''Failed to export model: '' @ str_of_int status))
     else say (model_name v @ '' exported successfully to '' @ export_path v @ ''!''))"

definition remote_pipeline_to_local :: "world \<Rightarrow> pipeline \<Rightarrow> vars \<Rightarrow> unit prog" where
  "remote_pipeline_to_local w p v =
     bind (say (''Checking if '' @ model_dir v @ '' and '' @ export_path v @ '' exist...'')) (\<lambda>_.
     bind (mkpath w (model_dir v)) (\<lambda>_.
     bind (mkpath w (export_path v)) (\<lambda>_.
     bind (say (''Loading base model '' @ model_id p
                @ '' from HuggingFace and downloading to '' @ model_dir v)) (\<lambda>_.
     bind (call (SnapshotDownload (model_id p) (Some (model_dir v)))
             (snapshot_download w (model_id p) (Some (model_dir v)))) (\<lambda>modelpath.
     bind (download_lora w p v) (\<lambda>lp.
     bind (say ''Initializing RKLLM class...'') (\<lambda>_.
     bind (load_model w p v modelpath lp) (\<lambda>_.
     bind (build_model w p v) (\<lambda>_.
     export_model w v)))))))))"

section \<open>HubHelpers\<close>

text \<open>
  \<open>hf_token\<close>, \<open>hf_username\<close> and \<open>repo_url\<close> are \<open>None\<close> until the method that assigns
  them has done so. The constructor reads \<open>HOME\<close> from the environment; the variable
  that it sets for the transfer backend has no part in the model.
\<close>

record hub =
  hub_model_id :: string
  hub_lora_id :: "string option"
  hub_platform :: string
  hub_qtype :: string
  hub_rkllm_version :: string
  home_dir :: string
  hf_token :: "string option"
  hf_username :: "string option"
  repo_url :: "string option"

definition HubHelpers :: "world \<Rightarrow> string \<Rightarrow> string \<Rightarrow> string option \<Rightarrow> string \<Rightarrow> string \<Rightarrow> hub prog" where
  "HubHelpers w pf model lora q version =
     (case env_home w of
        None \<Rightarrow> raise (KeyError ''HOME'')
      | Some h \<Rightarrow>
          ret \<lparr>hub_model_id = model, hub_lora_id = lora, hub_platform = pf, hub_qtype = q,
               hub_rkllm_version = version, home_dir = h, hf_token = None,
               hf_username = None, repo_url = None\<rparr>)"

definition repo_check :: "world \<Rightarrow> string \<Rightarrow> bool option prog" where
  "repo_check w model =
     (case hf_auth_check w model of
        None \<Rightarrow>
          bind (call (HfAuthCheck model) (Inr ())) (\<lambda>_.
          bind (say (''Model repo '' @ model @ '' has been validated!'')) (\<lambda>_. ret (Some True)))
      | Some (GatedRepoError m) \<Rightarrow>
          bind (call (HfAuthCheck model) (Inr ())) (\<lambda>_.
          bind (say (model @ '' is a gated repo.\<newline>You do not have permission to access it.\<newline>''
                     @ ''                   Please authenticate.\<newline>'')) (\<lambda>_. ret None))
      | Some (RepositoryNotFoundError m) \<Rightarrow>
          bind (call (HfAuthCheck model) (Inr ())) (\<lambda>_.
          bind (say (model @ '' not found.'')) (\<lambda>_. ret None))
      | Some e \<Rightarrow> call (HfAuthCheck model) (Inl e))"

definition login_to_hf :: "world \<Rightarrow> hub \<Rightarrow> hub prog" where
  "login_to_hf w hf =
     bind (path_exists (home_dir hf @ ''/.cache/huggingface/token'')) (\<lambda>ex.
     bind (if ex then call (ReadFile (home_dir hf @ ''/.cache/huggingface/token''))
                        (read_file w (home_dir hf @ ''/.cache/huggingface/token''))
           else call Prompt (case prompt_token w of None \<Rightarrow> Inl TypeError | Some t \<Rightarrow> Inr t))
       (\<lambda>token.
     bind (catch
             (bind (call (HfLogin token)
                      (case hf_login w token of None \<Rightarrow> Inr () | Some e \<Rightarrow> Inl e)) (\<lambda>_.
                say ''Logged into HuggingFace!''))
             (\<lambda>e. Some (say (''Login failed: '' @ exn_str e
                  @ ''\<newline>Gated models will be inaccessible, and you ''
                  @ ''will not be able to upload to HuggingFace.'')))) (\<lambda>_.
     bind (call (HfWhoami token) (hf_whoami w token)) (\<lambda>name.
     bind (say name) (\<lambda>_.
     ret (hf\<lparr>hf_token := Some token, hf_username := Some name\<rparr>))))))"

text \<open>
  \<open>card_load\<close> answers the YAML of the source card's metadata and the card's text.
  After a successful save the method prints the file it has just written.
\<close>

definition card_template :: "hub \<Rightarrow> string \<Rightarrow> string \<Rightarrow> string \<Rightarrow> string" where
  "card_template hf name yaml body =
     ''---\<newline>'' @ yaml @ ''\<newline>'' @ ''---\<newline>''
     @ ''# '' @ name @ ''-'' @ upper (hub_platform hf) @ ''-'' @ hub_rkllm_version hf
     @ ''\<newline>\<newline>''
     @ ''This version of '' @ name @ '' has been converted to run on the ''
     @ upper (hub_platform hf) @ '' NPU using '' @ hub_qtype hf @ '' quantization.\<newline>\<newline>''
     @ ''This model has been optimized with the following LoRA: '' @ py_str (hub_lora_id hf)
     @ ''\<newline>\<newline>''
     @ ''Compatible with RKLLM version: '' @ hub_rkllm_version hf @ ''\<newline>\<newline>''
     @ ''## Useful links:\<newline>''
     @ ''[Official RKLLM GitHub](https://github.com/airockchip/rknn-llm) \<newline>\<newline>''
     @ ''[RockhipNPU Reddit](https://reddit.com/r/RockchipNPU) \<newline>\<newline>''
     @ ''[EZRKNN-LLM](https://github.com/Pelochus/ezrknn-llm/) \<newline>\<newline>''
     @ ''Pretty much anything by these folks: [marty1885](https://github.com/marty1885) ''
     @ ''and [happyme531](https://huggingface.co/happyme531) \<newline>\<newline>''
     @ ''Converted using https://github.com/c0zaut/ez-er-rkllm-toolkit \<newline>\<newline>''
     @ ''# Original Model Card for base model, '' @ name @ '', below:\<newline>\<newline>''
     @ body"

definition build_card :: "world \<Rightarrow> hub \<Rightarrow> string \<Rightarrow> unit prog" where
  "build_card w hf export_path' =
     (case after_slash (hub_model_id hf) of
        None \<Rightarrow> raise IndexError
      | Some name \<Rightarrow>
          bind (call (ModelCardLoad (hub_model_id hf)) (card_load w (hub_model_id hf)))
            (\<lambda>(yaml, body).
          catch
            (bind (call (ModelCardSave (card_template hf name yaml body) (export_path' @ ''README.md''))
                     (case card_save w (card_template hf name yaml body) (export_path' @ ''README.md'')
                      of None \<Rightarrow> Inr () | Some e \<Rightarrow> Inl e)) (\<lambda>_.
             bind (say (''Model card successfully exported to '' @ export_path' @ ''README.md!''))
               (\<lambda>_.
             bind (call (ReadFile (export_path' @ ''README.md'')) (Inr ())) (\<lambda>_.
             say (card_template hf name yaml body)))))
            (\<lambda>e. case e of
               RuntimeError m \<Rightarrow> Some (say (''Runtime Error: '' @ m))
             | RuntimeWarning m \<Rightarrow> Some (say (''Runtime Warning: '' @ m))
             | _ \<Rightarrow> None)))"

definition upload_to_repo :: "world \<Rightarrow> hub \<Rightarrow> string \<Rightarrow> string \<Rightarrow> string \<Rightarrow> hub prog" where
  "upload_to_repo w hf model import_path export_path' =
     (case hf_token hf of
        None \<Rightarrow> raise (AttributeError ''hf_token'')
      | Some token \<Rightarrow>
     (case hf_username hf of
        None \<Rightarrow> raise (AttributeError ''hf_username'')
      | Some username \<Rightarrow>
          bind (say ''Creating repo if it does not already exist'') (\<lambda>_.
          bind (catch
                  (bind (call (CreateRepo (username @ ''/'' @ model @ ''-'' @ hub_platform hf
                                   @ ''-'' @ hub_rkllm_version hf))
                           (create_repo w (username @ ''/'' @ model @ ''-'' @ hub_platform hf
                                   @ ''-'' @ hub_rkllm_version hf))) (\<lambda>url.
                   bind (say (''Repo created! URL: '' @ url)) (\<lambda>_.
                   ret (hf\<lparr>repo_url := Some url\<rparr>))))
                  (\<lambda>e. Some (bind (say (''Create repo for '' @ model @ '' failed!''))
                     (\<lambda>_. ret hf)))) (\<lambda>hf'.
          bind (say ''Generating model card and copying configs'') (\<lambda>_.
          bind (build_card w hf' export_path') (\<lambda>_.
          bind (call (CopyTree import_path export_path')
                  (case copytree w import_path export_path' of None \<Rightarrow> Inr () | Some e \<Rightarrow> Inl e))
            (\<lambda>_.
          bind (call (UploadFolder (username @ ''/'' @ model @ ''-'' @ hub_platform hf
                           @ ''-'' @ hub_rkllm_version hf) export_path')
                  (case upload_folder w (username @ ''/'' @ model @ ''-'' @ hub_platform hf
                           @ ''-'' @ hub_rkllm_version hf) export_path'
                   of None \<Rightarrow> Inr () | Some e \<Rightarrow> Inl e)) (\<lambda>_.
          ret hf'))))))))"

section \<open>The command\<close>

definition QTypesRk3588 :: "string list" where
  "QTypesRk3588 = [''w8a8'', ''w8a8_g128'', ''w8a8_g256'', ''w8a8_g512'']"

definition QTypesRk3576 :: "string list" where
  "QTypesRk3576 = [''w8a8'', ''w4a16'', ''w4a16_g32'', ''w4a16_g64'', ''w4a16_g128'']"

text \<open>
  \<open>all(QTypes(qtype) in QTypes for qtype in qtypes)\<close>: the enum lookup raises
  \<open>ValueError\<close> at the first value that is not a member, and a member is in its enum.
\<close>

fun lookup_all :: "string \<Rightarrow> string list \<Rightarrow> string list \<Rightarrow> exn + unit" where
  "lookup_all cls members [] = Inr ()"
| "lookup_all cls members (q # qs) =
     (if q \<in> set members then lookup_all cls members qs else Inl (ValueError q cls))"

text \<open>The enum class that the validation looks the qtypes up in: its name and members.\<close>

fun qtypes_enum :: "Platform \<Rightarrow> string \<times> string list" where
  "qtypes_enum rk3588 = (''QTypesRk3588'', QTypesRk3588)"
| "qtypes_enum rk3576 = (''QTypesRk3576'', QTypesRk3576)"

definition validate :: "Platform \<Rightarrow> string list \<Rightarrow> pyfloat list \<Rightarrow> exn + unit" where
  "validate pf qtypes hybrid_rates =
     (case lookup_all (fst (qtypes_enum pf)) (snd (qtypes_enum pf)) qtypes of
        Inl e \<Rightarrow> Inl e
      | Inr _ \<Rightarrow> if list_all in_unit_interval hybrid_rates then Inr () else Inl AssertionError)"

text \<open>The pipeline object that the loop constructs for one combination.\<close>

definition cli_pipeline :: "world \<Rightarrow> bool \<Rightarrow> Platform \<Rightarrow> string \<Rightarrow> string \<Rightarrow> pyfloat \<Rightarrow> pipeline" where
  "cli_pipeline w opt pf model q rate =
     \<lparr>model_id = model, lora_id = Some '''', platform = platform_str w pf, qtype = q,
      hybrid_rate = float_str w rate, library_type = ''HF'',
      optimization = (if opt then 1 else 0)\<rparr>"

text \<open>The statements inside \<open>try\<close>.\<close>

definition convert_and_upload :: "world \<Rightarrow> pipeline \<Rightarrow> vars \<Rightarrow> hub \<Rightarrow> hub prog" where
  "convert_and_upload w p v hf =
     bind (remote_pipeline_to_local w p v) (\<lambda>_.
     upload_to_repo w hf (model_name v) (model_dir v) (export_path v))"

text \<open>
  The body of the innermost loop: first the statements before \<open>try\<close>, which give the
  pipeline object with its resolved names and the logged-in hub helper, then the
  \<open>try\<close> statement, whose only handler is for \<open>RuntimeError\<close>.
\<close>

definition setup_one :: "world \<Rightarrow> bool \<Rightarrow> Platform \<Rightarrow> string \<times> string \<times> pyfloat \<Rightarrow> (pipeline \<times> vars \<times> hub) prog" where
  "setup_one w opt pf c =
     (case c of (model, q, rate) \<Rightarrow>
        bind (lift (build_vars (cli_pipeline w opt pf model q rate))) (\<lambda>v.
        bind (HubHelpers w (platform (cli_pipeline w opt pf model q rate)) model
                (lora_id (cli_pipeline w opt pf model q rate)) q (rkllm_version v)) (\<lambda>hf.
        bind (login_to_hf w hf) (\<lambda>hf.
        bind (repo_check w (model_id (cli_pipeline w opt pf model q rate))) (\<lambda>_.
        ret (cli_pipeline w opt pf model q rate, v, hf))))))"

definition try_one :: "world \<Rightarrow> pipeline \<Rightarrow> vars \<Rightarrow> hub \<Rightarrow> unit prog" where
  "try_one w p v hf =
     catch
       (bind (convert_and_upload w p v hf) (\<lambda>_. ret ()))
       (\<lambda>e. case e of
          RuntimeError m \<Rightarrow> Some (say (''Model conversion failed: '' @ m))
        | _ \<Rightarrow> None)"

definition convert_one :: "world \<Rightarrow> bool \<Rightarrow> Platform \<Rightarrow> string \<times> string \<times> pyfloat \<Rightarrow> unit prog" where
  "convert_one w opt pf c =
     bind (setup_one w opt pf c) (\<lambda>(p, v, hf). try_one w p v hf)"

text \<open>The three nested loops visit the combinations in this order.\<close>

definition combinations :: "string list \<Rightarrow> string list \<Rightarrow> pyfloat list \<Rightarrow> (string \<times> string \<times> pyfloat) list" where
  "combinations model_ids qtypes hybrid_rates =
     concat (map (\<lambda>model. concat (map (\<lambda>q. map (\<lambda>rate. (model, q, rate)) hybrid_rates) qtypes))
               model_ids)"

fun convert_loop :: "world \<Rightarrow> bool \<Rightarrow> Platform \<Rightarrow> (string \<times> string \<times> pyfloat) list \<Rightarrow> unit prog" where
  "convert_loop w opt pf [] = ret ()"
| "convert_loop w opt pf (c # cs) = bind (convert_one w opt pf c) (\<lambda>_. convert_loop w opt pf cs)"

definition convert :: "world \<Rightarrow> string list \<Rightarrow> string list \<Rightarrow> pyfloat list \<Rightarrow> bool \<Rightarrow> Platform \<Rightarrow> unit prog" where
  "convert w model_ids qtypes hybrid_rates opt pf =
     bind (lift (validate pf qtypes hybrid_rates)) (\<lambda>_.
     convert_loop w opt pf (combinations model_ids qtypes hybrid_rates))"

section \<open>Properties of requests and traces\<close>

text \<open>
  A request whose identifiers have the form owner/name that the hub uses, with the
  empty string for no adapter, as the command passes it.
\<close>

definition well_formed :: "pipeline \<Rightarrow> bool" where
  "well_formed p =
     (CHR ''/'' \<in> set (model_id p)
      \<and> (case lora_id p of None \<Rightarrow> False | Some l \<Rightarrow> l = '''' \<or> CHR ''/'' \<in> set l))"

text \<open>
  An engine call that returned a status other than 0, with the message of the error
  that the pipeline is to report for it.
\<close>

fun engine_failure :: "event \<Rightarrow> string option" where
  "engine_failure (LoadHuggingface m l d s) =
     (if s \<noteq> 0 then Some (''Failed to load model: '' @ str_of_int s) else None)"
| "engine_failure (LoadGguf m s) =
     (if s \<noteq> 0 then Some (''Failed to load model: '' @ str_of_int s) else None)"
| "engine_failure (RkllmBuild ol q pf n s) =
     (if s \<noteq> 0 then Some (''Failed to build model: '' @ str_of_int s) else None)"
| "engine_failure (ExportRkllm path s) =
     (if s \<noteq> 0 then Some (''Failed to export model: '' @ str_of_int s) else None)"
| "engine_failure _ = None"

text \<open>The three outcomes of the accessibility check: accessible, gated, not found.\<close>

fun check_outcome :: "exn option \<Rightarrow> bool" where
  "check_outcome None = True"
| "check_outcome (Some (GatedRepoError m)) = True"
| "check_outcome (Some (RepositoryNotFoundError m)) = True"
| "check_outcome (Some _) = False"

text \<open>The calls of a trace: everything but the lines printed.\<close>

fun is_call :: "event \<Rightarrow> bool" where
  "is_call (Print s) = False"
| "is_call _ = True"

definition calls_of :: "event list \<Rightarrow> event list" where
  "calls_of evs = filter is_call evs"

text \<open>
  A trace stops at its first failed engine call, and the result is then the
  \<open>RuntimeError\<close> for that call. A trace is quiet when no engine call in it failed.
\<close>

fun stops_at :: "event list \<Rightarrow> exn + 'a \<Rightarrow> bool" where
  "stops_at [] r = True"
| "stops_at (e # es) r =
     (case engine_failure e of
        None \<Rightarrow> stops_at es r
      | Some m \<Rightarrow> es = [] \<and> r = Inl (RuntimeError m))"

definition quiet :: "event list \<Rightarrow> bool" where
  "quiet evs = list_all (\<lambda>e. engine_failure e = None) evs"

text \<open>
  Two runs with the same calls in the same order, the same file system afterwards and
  the same result; the lines printed may differ.
\<close>

definition same_run :: "event list \<times> path set \<times> (exn + 'a) \<Rightarrow> event list \<times> path set \<times> (exn + 'a) \<Rightarrow> bool" where
  "same_run X Y = (calls_of (fst X) = calls_of (fst Y) \<and> snd X = snd Y)"

section \<open>Example worlds and requests\<close>

text \<open>
  A world in which every collaborator succeeds: the hub accepts the token, every
  repository but the one with the empty name can be downloaded, and the engine
  answers status 0. The interpreter formats a platform as its value.
\<close>

definition world_ok :: world where
  "world_ok =
     \<lparr>env_home = Some ''/home/user'',
      makedirs_error = (\<lambda>_. None),
      read_file = (\<lambda>_. Inr ''hf_secret''),
      prompt_token = Some ''hf_secret'',
      float_str = (\<lambda>r. if r = Finite 0 then ''0.0'' else if r = NegZero then ''-0.0''
                        else if r = Finite (1 / 2) then ''0.5'' else ''1.0''),
      platform_str = platform_value,
      hf_login = (\<lambda>_. None),
      hf_whoami = (\<lambda>_. Inr ''user''),
      hf_auth_check = (\<lambda>_. None),
      snapshot_download = (\<lambda>repo dir. if repo = '''' then Inl (OtherError ''invalid repo id'')
                                         else Inr (py_str dir)),
      load_huggingface = (\<lambda>_ _ _. 0),
      load_gguf = (\<lambda>_. 0),
      rkllm_build = (\<lambda>_ _ _ _. 0),
      export_rkllm = (\<lambda>_. 0),
      create_repo = (\<lambda>r. Inr (''https://huggingface.co/'' @ r)),
      card_load = (\<lambda>_. Inr (''license: mit'', ''A model.'')),
      card_save = (\<lambda>_ _. None),
      copytree = (\<lambda>_ _. None),
      upload_folder = (\<lambda>_ _. None)\<rparr>"

text \<open>The request of the scenario: \<open>org/llama-x\<close> for rk3588, w8a8, optimised.\<close>

definition llama_request :: "pyfloat \<Rightarrow> pipeline" where
  "llama_request rate = cli_pipeline world_ok True rk3588 ''org/llama-x'' ''w8a8'' rate"

text \<open>What name resolution gives for the request of the scenario.\<close>

definition llama_vars :: vars where
  "llama_vars =
     \<lparr>npu_cores = Some 3, device = ''cpu'', model_name = ''llama-x'',
      model_dir = ''./models/llama-x/'', name_suffix = ''rk3588-w8a8-opt-1-hybrid-ratio-0.0'',
      lora_name = None, lora_dir = None, lorapath = Attr None,
      export_name = ''llama-x-rk3588-w8a8-opt-1-hybrid-ratio-0.0'',
      export_path = ''./models/llama-x-rk3588/'', rkllm_version = ''1.1.4''\<rparr>"

text \<open>The engine fails every build with status 1.\<close>

definition world_build_fails :: world where
  "world_build_fails = world_ok\<lparr>rkllm_build := (\<lambda>_ _ _ _. 1)\<rparr>"

text \<open>The engine fails every load with status 1.\<close>

definition world_load_fails :: world where
  "world_load_fails = world_ok\<lparr>load_huggingface := (\<lambda>_ _ _. 1)\<rparr>"

text \<open>The repository \<open>org/missing\<close> does not exist on the hub.\<close>

definition world_missing :: world where
  "world_missing = world_ok\<lparr>snapshot_download :=
     (\<lambda>repo dir. if repo = ''org/missing'' then Inl (RepositoryNotFoundError ''404 Not Found'')
                 else snapshot_download world_ok repo dir)\<rparr>"

text \<open>The hub rejects the token, at login and at every later call with it.\<close>

definition world_bad_token :: world where
  "world_bad_token = world_ok\<lparr>hf_login := (\<lambda>_. Some (OtherError ''Invalid token passed!'')),
     hf_whoami := (\<lambda>_. Inl (OtherError ''401 Unauthorized''))\<rparr>"

text \<open>The hub helper of the scenario after \<open>login_to_hf\<close> in \<open>world_ok\<close>.\<close>

definition llama_hub :: hub where
  "llama_hub =
     \<lparr>hub_model_id = ''org/llama-x'', hub_lora_id = Some '''', hub_platform = ''rk3588'',
      hub_qtype = ''w8a8'', hub_rkllm_version = ''1.1.4'', home_dir = ''/home/user'',
      hf_token = Some ''hf_secret'', hf_username = Some ''user'', repo_url = None\<rparr>"

section \<open>Decimal numerals are injective\<close>

declare str_of_nat.simps [simp del]

lemma digit_char_inj: "a < 10 \<Longrightarrow> b < 10 \<Longrightarrow> digit_char a = digit_char b \<Longrightarrow> a = b"
  unfolding digit_char_def
  by (auto simp: less_Suc_eq numeral_eq_Suc nth_Cons')

lemma digit_char_not_minus: "d < 10 \<Longrightarrow> digit_char d \<noteq> CHR ''-''"
  unfolding digit_char_def
  by (auto simp: less_Suc_eq numeral_eq_Suc nth_Cons')

lemma str_of_nat_nonempty: "str_of_nat n \<noteq> []"
  by (subst str_of_nat.simps) simp

lemma str_of_nat_length_ge2: "10 \<le> n \<Longrightarrow> 2 \<le> length (str_of_nat n)"
  using str_of_nat_nonempty [of "n div 10"]
  by (subst str_of_nat.simps) (cases "str_of_nat (n div 10)"; simp)

lemma str_of_nat_inj: "str_of_nat n = str_of_nat m \<Longrightarrow> n = m"
proof (induction n arbitrary: m rule: str_of_nat.induct)
  case (1 n)
  show ?case
  proof (cases "n < 10")
    case small: True
    show ?thesis
    proof (cases "m < 10")
      case True
      with small "1.prems" show ?thesis
        by (simp add: str_of_nat.simps [of n] str_of_nat.simps [of m] digit_char_inj)
    next
      case False
      then have "2 \<le> length (str_of_nat m)" by (simp add: str_of_nat_length_ge2)
      moreover from small have "length (str_of_nat n) = 1" by (simp add: str_of_nat.simps [of n])
      ultimately show ?thesis using "1.prems" by simp
    qed
  next
    case big: False
    show ?thesis
    proof (cases "m < 10")
      case True
      from big have "2 \<le> length (str_of_nat n)" by (simp add: str_of_nat_length_ge2)
      moreover from True have "length (str_of_nat m) = 1" by (simp add: str_of_nat.simps [of m])
      ultimately show ?thesis using "1.prems" by simp
    next
      case False
      with big "1.prems" have eq: "str_of_nat (n div 10) = str_of_nat (m div 10)"
        and d: "digit_char (n mod 10) = digit_char (m mod 10)"
        by (simp_all add: str_of_nat.simps [of n] str_of_nat.simps [of m])
      from "1.IH" [OF big eq] have "n div 10 = m div 10" .
      moreover from d have "n mod 10 = m mod 10" by (intro digit_char_inj) simp_all
      ultimately show ?thesis by (metis div_mult_mod_eq)
    qed
  qed
qed

lemma str_of_nat_hd: "hd (str_of_nat n) \<noteq> CHR ''-''"
proof (induction n rule: str_of_nat.induct)
  case (1 n)
  show ?case
  proof (cases "n < 10")
    case True
    then show ?thesis by (simp add: str_of_nat.simps [of n] digit_char_not_minus)
  next
    case False
    with "1.IH" show ?thesis
      by (simp add: str_of_nat.simps [of n] str_of_nat_nonempty)
  qed
qed

lemma str_of_int_inj: "str_of_int i = str_of_int j \<Longrightarrow> i = j"
proof -
  assume eq: "str_of_int i = str_of_int j"
  have neg_pos: "CHR ''-'' # str_of_nat a \<noteq> str_of_nat b" for a b
    using str_of_nat_hd [of b] by (metis list.sel(1))
  show ?thesis
  proof (cases "i < 0")
    case ineg: True
    show ?thesis
    proof (cases "j < 0")
      case True
      with ineg eq have "str_of_nat (nat (- i)) = str_of_nat (nat (- j))"
        by (simp add: str_of_int_def)
      then have "nat (- i) = nat (- j)" by (rule str_of_nat_inj)
      with ineg True show ?thesis by simp
    next
      case False
      with ineg eq neg_pos show ?thesis by (simp add: str_of_int_def)
    qed
  next
    case ipos: False
    show ?thesis
    proof (cases "j < 0")
      case True
      with ipos eq neg_pos [of "nat (- j)" "nat i"] show ?thesis
        by (simp add: str_of_int_def)
    next
      case False
      with ipos eq have "str_of_nat (nat i) = str_of_nat (nat j)"
        by (simp add: str_of_int_def)
      then have "nat i = nat j" by (rule str_of_nat_inj)
      with ipos False show ?thesis by simp
    qed
  qed
qed

text \<open>Numerals that the examples print.\<close>

lemma str_of_int_small [simp]:
  "str_of_int 0 = ''0''" "str_of_int 1 = ''1''" "str_of_int 2 = ''2''"
  by (simp_all add: str_of_int_def str_of_nat.simps digit_char_def)

section \<open>Name resolution\<close>

lemma build_vars_export_name:
  assumes "build_vars p = Inr v"
  shows "\<exists>mname. after_slash (model_id p) = Some mname \<and>
           ((lora_id p = Some '''' \<and> export_name v = mname @ ''-'' @ name_template p) \<or>
            (\<exists>lid lname. lora_id p = Some lid \<and> lid \<noteq> '''' \<and> after_slash lid = Some lname \<and>
               export_name v = mname @ ''-'' @ lname @ ''-'' @ name_template p))"
  using assms
  by (auto simp: build_vars_def Let_def split: option.splits if_splits)

lemma name_template_inj:
  assumes "name_template p1 = name_template p2"
    and "(platform p1 = platform p2 \<and> qtype p1 = qtype p2 \<and> optimization p1 = optimization p2)
       \<or> (platform p1 = platform p2 \<and> qtype p1 = qtype p2 \<and> hybrid_rate p1 = hybrid_rate p2)
       \<or> (platform p1 = platform p2 \<and> optimization p1 = optimization p2
            \<and> hybrid_rate p1 = hybrid_rate p2)
       \<or> (qtype p1 = qtype p2 \<and> optimization p1 = optimization p2
            \<and> hybrid_rate p1 = hybrid_rate p2)"
  shows "platform p1 = platform p2 \<and> qtype p1 = qtype p2 \<and> optimization p1 = optimization p2
       \<and> hybrid_rate p1 = hybrid_rate p2"
proof -
  from assms(2) consider
      (h) "platform p1 = platform p2" "qtype p1 = qtype p2" "optimization p1 = optimization p2"
    | (o) "platform p1 = platform p2" "qtype p1 = qtype p2" "hybrid_rate p1 = hybrid_rate p2"
    | (q) "platform p1 = platform p2" "optimization p1 = optimization p2"
          "hybrid_rate p1 = hybrid_rate p2"
    | (p) "qtype p1 = qtype p2" "optimization p1 = optimization p2"
          "hybrid_rate p1 = hybrid_rate p2"
    by blast
  then show ?thesis
  proof cases
    case h
    with assms(1) show ?thesis by (simp add: name_template_def)
  next
    case o
    with assms(1) have "str_of_int (optimization p1) = str_of_int (optimization p2)"
      by (simp add: name_template_def)
    with o show ?thesis by (simp add: str_of_int_inj)
  next
    case q
    with assms(1) show ?thesis by (simp add: name_template_def)
  next
    case p
    with assms(1) show ?thesis by (simp add: name_template_def)
  qed
qed

lemma after_slash_Some: "CHR ''/'' \<in> set s \<Longrightarrow> \<exists>n. after_slash s = Some n"
  by (induction s) auto

text \<open>Name resolution succeeds on every well-formed request.\<close>

lemma build_vars_succeeds:
  assumes "well_formed p"
  shows "\<exists>v. build_vars p = Inr v"
proof -
  from assms obtain mname where m: "after_slash (model_id p) = Some mname"
    using after_slash_Some by (auto simp: well_formed_def)
  from assms obtain l where l: "lora_id p = Some l" and "l = '''' \<or> CHR ''/'' \<in> set l"
    by (auto simp: well_formed_def split: option.splits)
  then consider "l = ''''" | lname where "l \<noteq> ''''" "after_slash l = Some lname"
    using after_slash_Some by blast
  then show ?thesis
  proof cases
    case 1
    with m l show ?thesis by (simp add: build_vars_def Let_def)
  next
    case 2
    with m l show ?thesis by (simp add: build_vars_def Let_def)
  qed
qed

lemma export_name_differs:
  assumes "build_vars p1 = Inr v1" and "build_vars p2 = Inr v2"
    and "model_id p1 = model_id p2"
    and "(qtype p1 \<noteq> qtype p2 \<and> hybrid_rate p1 = hybrid_rate p2
            \<and> optimization p1 = optimization p2
            \<and> platform p1 = platform p2 \<and> lora_id p1 = lora_id p2)
       \<or> (hybrid_rate p1 \<noteq> hybrid_rate p2 \<and> qtype p1 = qtype p2
            \<and> optimization p1 = optimization p2
            \<and> platform p1 = platform p2 \<and> lora_id p1 = lora_id p2)
       \<or> (optimization p1 \<noteq> optimization p2 \<and> qtype p1 = qtype p2
            \<and> hybrid_rate p1 = hybrid_rate p2
            \<and> platform p1 = platform p2 \<and> lora_id p1 = lora_id p2)
       \<or> (platform p1 \<noteq> platform p2 \<and> qtype p1 = qtype p2 \<and> hybrid_rate p1 = hybrid_rate p2
            \<and> optimization p1 = optimization p2 \<and> lora_id p1 = lora_id p2)
       \<or> ((lora_id p1 = Some '''') \<noteq> (lora_id p2 = Some '''') \<and> qtype p1 = qtype p2
            \<and> hybrid_rate p1 = hybrid_rate p2 \<and> optimization p1 = optimization p2
            \<and> platform p1 = platform p2)"
  shows "export_name v1 \<noteq> export_name v2"
proof
  assume eq: "export_name v1 = export_name v2"
  from build_vars_export_name [OF assms(1)] obtain m1 where
    m1: "after_slash (model_id p1) = Some m1" and
    n1: "(lora_id p1 = Some '''' \<and> export_name v1 = m1 @ ''-'' @ name_template p1) \<or>
         (\<exists>lid lname. lora_id p1 = Some lid \<and> lid \<noteq> '''' \<and> after_slash lid = Some lname \<and>
               export_name v1 = m1 @ ''-'' @ lname @ ''-'' @ name_template p1)"
    by blast
  from build_vars_export_name [OF assms(2)] obtain m2 where
    m2: "after_slash (model_id p2) = Some m2" and
    n2: "(lora_id p2 = Some '''' \<and> export_name v2 = m2 @ ''-'' @ name_template p2) \<or>
         (\<exists>lid lname. lora_id p2 = Some lid \<and> lid \<noteq> '''' \<and> after_slash lid = Some lname \<and>
               export_name v2 = m2 @ ''-'' @ lname @ ''-'' @ name_template p2)"
    by blast
  from m1 m2 assms(3) have mm: "m2 = m1" by simp
  consider (same) "lora_id p1 = lora_id p2"
    | (presence) "(lora_id p1 = Some '''') \<noteq> (lora_id p2 = Some '''')"
      "qtype p1 = qtype p2" "hybrid_rate p1 = hybrid_rate p2"
      "optimization p1 = optimization p2" "platform p1 = platform p2"
    using assms(4) by blast
  then show False
  proof cases
    case same
    with n1 n2 eq mm have "name_template p1 = name_template p2" by auto
    from name_template_inj [OF this]
    have "platform p1 = platform p2 \<and> qtype p1 = qtype p2
        \<and> optimization p1 = optimization p2 \<and> hybrid_rate p1 = hybrid_rate p2"
      using assms(4) same by fast
    with assms(4) same show False by simp
  next
    case presence
    then have t: "name_template p1 = name_template p2" by (simp add: name_template_def)
    from presence(1) n1 n2 eq mm t
    have "\<exists>l. name_template p2 = l @ ''-'' @ name_template p2" by auto
    then obtain l where "name_template p2 = l @ ''-'' @ name_template p2" ..
    then have "length (name_template p2) = length (l @ ''-'' @ name_template p2)" by simp
    then show False by simp
  qed
qed

text \<open>
  C1. For two well-formed requests that differ in exactly one of qtype, hybrid rate,
  optimisation level, platform, or in whether an adapter is present, and agree on every
  other field, name resolution succeeds on both and gives different export names. In
  particular the hybrid rate takes part in the name.
\<close>

theorem export_name_distinct:
  assumes "well_formed p1" and "well_formed p2"
    and "model_id p1 = model_id p2" and "library_type p1 = library_type p2"
    and "(qtype p1 \<noteq> qtype p2 \<and> hybrid_rate p1 = hybrid_rate p2
            \<and> optimization p1 = optimization p2
            \<and> platform p1 = platform p2 \<and> lora_id p1 = lora_id p2)
       \<or> (hybrid_rate p1 \<noteq> hybrid_rate p2 \<and> qtype p1 = qtype p2
            \<and> optimization p1 = optimization p2
            \<and> platform p1 = platform p2 \<and> lora_id p1 = lora_id p2)
       \<or> (optimization p1 \<noteq> optimization p2 \<and> qtype p1 = qtype p2
            \<and> hybrid_rate p1 = hybrid_rate p2
            \<and> platform p1 = platform p2 \<and> lora_id p1 = lora_id p2)
       \<or> (platform p1 \<noteq> platform p2 \<and> qtype p1 = qtype p2 \<and> hybrid_rate p1 = hybrid_rate p2
            \<and> optimization p1 = optimization p2 \<and> lora_id p1 = lora_id p2)
       \<or> ((lora_id p1 = Some '''') \<noteq> (lora_id p2 = Some '''') \<and> qtype p1 = qtype p2
            \<and> hybrid_rate p1 = hybrid_rate p2 \<and> optimization p1 = optimization p2
            \<and> platform p1 = platform p2)"
  shows "\<exists>v1 v2. build_vars p1 = Inr v1 \<and> build_vars p2 = Inr v2
           \<and> export_name v1 \<noteq> export_name v2"
proof -
  from build_vars_succeeds [OF assms(1)] obtain v1 where v1: "build_vars p1 = Inr v1" ..
  from build_vars_succeeds [OF assms(2)] obtain v2 where v2: "build_vars p2 = Inr v2" ..
  from export_name_differs [OF v1 v2 assms(3) assms(5)] v1 v2 show ?thesis by blast
qed

text \<open>
  The theorem at the request of the scenario and at five requests that differ from it
  in one field each: qtype, hybrid rate, optimisation level, platform, adapter.
\<close>

lemma llama_request_fields:
  "llama_request (Finite 0) =
     \<lparr>model_id = ''org/llama-x'', lora_id = Some '''', platform = ''rk3588'', qtype = ''w8a8'',
      hybrid_rate = ''0.0'', library_type = ''HF'', optimization = 1\<rparr>"
  by (simp add: llama_request_def cli_pipeline_def world_ok_def)

theorem export_name_distinct_witness:
  "(\<exists>v1 v2. build_vars (llama_request (Finite 0)) = Inr v1
      \<and> build_vars ((llama_request (Finite 0))\<lparr>qtype := ''w8a8_g128''\<rparr>) = Inr v2
      \<and> export_name v1 \<noteq> export_name v2)
   \<and> (\<exists>v1 v2. build_vars (llama_request (Finite 0)) = Inr v1
      \<and> build_vars ((llama_request (Finite 0))\<lparr>hybrid_rate := ''0.5''\<rparr>) = Inr v2
      \<and> export_name v1 \<noteq> export_name v2)
   \<and> (\<exists>v1 v2. build_vars (llama_request (Finite 0)) = Inr v1
      \<and> build_vars ((llama_request (Finite 0))\<lparr>optimization := 0\<rparr>) = Inr v2
      \<and> export_name v1 \<noteq> export_name v2)
   \<and> (\<exists>v1 v2. build_vars (llama_request (Finite 0)) = Inr v1
      \<and> build_vars ((llama_request (Finite 0))\<lparr>platform := ''rk3576''\<rparr>) = Inr v2
      \<and> export_name v1 \<noteq> export_name v2)
   \<and> (\<exists>v1 v2. build_vars (llama_request (Finite 0)) = Inr v1
      \<and> build_vars ((llama_request (Finite 0))\<lparr>lora_id := Some ''org/adapter''\<rparr>) = Inr v2
      \<and> export_name v1 \<noteq> export_name v2)
   \<and> export_name llama_vars = ''llama-x-rk3588-w8a8-opt-1-hybrid-ratio-0.0''
   \<and> map_sum id export_name (build_vars ((llama_request (Finite 0))\<lparr>qtype := ''w8a8_g128''\<rparr>))
       = Inr ''llama-x-rk3588-w8a8_g128-opt-1-hybrid-ratio-0.0''
   \<and> map_sum id export_name (build_vars ((llama_request (Finite 0))\<lparr>hybrid_rate := ''0.5''\<rparr>))
       = Inr ''llama-x-rk3588-w8a8-opt-1-hybrid-ratio-0.5''
   \<and> map_sum id export_name (build_vars ((llama_request (Finite 0))\<lparr>optimization := 0\<rparr>))
       = Inr ''llama-x-rk3588-w8a8-opt-0-hybrid-ratio-0.0''
   \<and> map_sum id export_name (build_vars ((llama_request (Finite 0))\<lparr>platform := ''rk3576''\<rparr>))
       = Inr ''llama-x-rk3576-w8a8-opt-1-hybrid-ratio-0.0''
   \<and> map_sum id export_name
        (build_vars ((llama_request (Finite 0))\<lparr>lora_id := Some ''org/adapter''\<rparr>))
       = Inr ''llama-x-adapter-rk3588-w8a8-opt-1-hybrid-ratio-0.0''"
proof -
  have q: "\<exists>v1 v2. build_vars (llama_request (Finite 0)) = Inr v1
      \<and> build_vars ((llama_request (Finite 0))\<lparr>qtype := ''w8a8_g128''\<rparr>) = Inr v2
      \<and> export_name v1 \<noteq> export_name v2"
    by (rule export_name_distinct) (simp_all add: llama_request_fields well_formed_def)
  have h: "\<exists>v1 v2. build_vars (llama_request (Finite 0)) = Inr v1
      \<and> build_vars ((llama_request (Finite 0))\<lparr>hybrid_rate := ''0.5''\<rparr>) = Inr v2
      \<and> export_name v1 \<noteq> export_name v2"
    by (rule export_name_distinct) (simp_all add: llama_request_fields well_formed_def)
  have o: "\<exists>v1 v2. build_vars (llama_request (Finite 0)) = Inr v1
      \<and> build_vars ((llama_request (Finite 0))\<lparr>optimization := 0\<rparr>) = Inr v2
      \<and> export_name v1 \<noteq> export_name v2"
    by (rule export_name_distinct) (simp_all add: llama_request_fields well_formed_def)
  have p: "\<exists>v1 v2. build_vars (llama_request (Finite 0)) = Inr v1
      \<and> build_vars ((llama_request (Finite 0))\<lparr>platform := ''rk3576''\<rparr>) = Inr v2
      \<and> export_name v1 \<noteq> export_name v2"
    by (rule export_name_distinct) (simp_all add: llama_request_fields well_formed_def)
  have l: "\<exists>v1 v2. build_vars (llama_request (Finite 0)) = Inr v1
      \<and> build_vars ((llama_request (Finite 0))\<lparr>lora_id := Some ''org/adapter''\<rparr>) = Inr v2
      \<and> export_name v1 \<noteq> export_name v2"
    by (rule export_name_distinct) (simp_all add: llama_request_fields well_formed_def)
  have names:
    "export_name llama_vars = ''llama-x-rk3588-w8a8-opt-1-hybrid-ratio-0.0''"
    "map_sum id export_name (build_vars ((llama_request (Finite 0))\<lparr>qtype := ''w8a8_g128''\<rparr>))
       = Inr ''llama-x-rk3588-w8a8_g128-opt-1-hybrid-ratio-0.0''"
    "map_sum id export_name (build_vars ((llama_request (Finite 0))\<lparr>hybrid_rate := ''0.5''\<rparr>))
       = Inr ''llama-x-rk3588-w8a8-opt-1-hybrid-ratio-0.5''"
    "map_sum id export_name (build_vars ((llama_request (Finite 0))\<lparr>optimization := 0\<rparr>))
       = Inr ''llama-x-rk3588-w8a8-opt-0-hybrid-ratio-0.0''"
    "map_sum id export_name (build_vars ((llama_request (Finite 0))\<lparr>platform := ''rk3576''\<rparr>))
       = Inr ''llama-x-rk3576-w8a8-opt-1-hybrid-ratio-0.0''"
    "map_sum id export_name
        (build_vars ((llama_request (Finite 0))\<lparr>lora_id := Some ''org/adapter''\<rparr>))
       = Inr ''llama-x-adapter-rk3588-w8a8-opt-1-hybrid-ratio-0.0''"
    by (simp_all add: llama_request_fields build_vars_def name_template_def Let_def
        llama_vars_def)
  from q h o p l names show ?thesis by blast
qed

section \<open>Running programs\<close>

lemmas prog_defs = ret_def raise_def lift_def say_def call_def bind_def catch_def path_exists_def
  os_makedirs_def

lemmas pipeline_defs = mkpath_def download_lora_def load_model_def build_model_def
  export_model_def remote_pipeline_to_local_def

lemmas hub_defs = HubHelpers_def repo_check_def login_to_hf_def card_template_def build_card_def
  upload_to_repo_def

lemmas cli_defs = QTypesRk3588_def QTypesRk3576_def validate_def cli_pipeline_def
  convert_and_upload_def setup_one_def try_one_def convert_one_def combinations_def convert_def

lemmas world_defs = world_ok_def world_build_fails_def world_load_fails_def world_missing_def
  world_bad_token_def exists_path_def norm_path_def made_dirs_def

lemma llama_vars: "build_vars (llama_request (Finite 0)) = Inr llama_vars"
  by (simp add: build_vars_def llama_request_def cli_pipeline_def Let_def name_template_def
      world_ok_def llama_vars_def)

lemma bindE:
  assumes "bind f g fs = (evs, fs', r)"
  obtains (fail) e where "f fs = (evs, fs', Inl e)" "r = Inl e"
    | (ok) evs1 fs1 x evs2 where "f fs = (evs1, fs1, Inr x)" "g x fs1 = (evs2, fs', r)"
        "evs = evs1 @ evs2"
  using assms by (auto simp: bind_def split: prod.splits sum.splits)

section \<open>Directory preparation\<close>

lemma mkpath_existing:
  "exists_path path fs \<Longrightarrow>
   mkpath w path fs = ([Print (''Path '' @ path @ '' already exists! Great job!'')], fs, Inr ())"
  by (simp add: mkpath_def prog_defs)

lemma mkpath_cases:
  assumes "mkpath w path fs = (evs, fs', r)"
  shows "(exists_path path fs \<and> fs' = fs \<and> r = Inr ())
       \<or> (\<not> exists_path path fs \<and> makedirs_error w path = None
            \<and> fs' = fs \<union> made_dirs path \<and> r = Inr ())
       \<or> (\<not> exists_path path fs \<and> (\<exists>e. makedirs_error w path = Some e) \<and> fs' = fs)"
  using assms
  by (auto simp: mkpath_def prog_defs split: if_splits option.splits exn.splits)

text \<open>\<open>os.makedirs\<close> makes the path exist, and its parents with it.\<close>

lemma nonempty_prefixes_self: "xs \<noteq> [] \<Longrightarrow> xs \<in> set (nonempty_prefixes xs)"
  by (induction xs) auto

lemma made_dirs_exists: "path \<noteq> [] \<Longrightarrow> exists_path path (fs \<union> made_dirs path)"
  by (cases "snd (norm_path path) = []")
     (auto simp: exists_path_def made_dirs_def nonempty_prefixes_self
        intro!: image_eqI [where x = "snd (norm_path path)"])

text \<open>
  C9. When the directory exists after a call of \<open>mkpath\<close>, that call has returned
  normally, and a second call on the same path returns normally too, calls
  \<open>os.makedirs\<close> no more, only prints that the path exists, and leaves the file
  system as the first call left it: two calls in sequence end in the same file system
  as one.
\<close>

theorem mkpath_idempotent:
  assumes "mkpath w path fs = (evs, fs', r)" and "exists_path path fs'"
  shows "r = Inr ()
       \<and> mkpath w path fs' =
           ([Print (''Path '' @ path @ '' already exists! Great job!'')], fs', Inr ())
       \<and> fst (snd (bind (mkpath w path) (\<lambda>_. mkpath w path) fs)) = fs'"
proof -
  from mkpath_cases [OF assms(1)] assms(2) have r: "r = Inr ()" by auto
  have again: "mkpath w path fs' =
      ([Print (''Path '' @ path @ '' already exists! Great job!'')], fs', Inr ())"
    using assms(2) by (rule mkpath_existing)
  from assms(1) r again
  have "fst (snd (bind (mkpath w path) (\<lambda>_. mkpath w path) fs)) = fs'"
    by (simp add: bind_def)
  with r again show ?thesis by simp
qed

lemma llama_dir: "norm_path ''./models/llama-x/'' = (False, [''models'', ''llama-x''])"
  by (simp add: norm_path_def)

theorem mkpath_idempotent_witness:
  "mkpath world_ok ''./models/llama-x/'' {} =
     ([OsMakedirs ''./models/llama-x/'', Print ''mkdir'd ./models/llama-x/''],
      {(False, [''models'']), (False, [''models'', ''llama-x''])}, Inr ())
   \<and> exists_path ''./models/llama-x/'' {(False, [''models'']), (False, [''models'', ''llama-x''])}
   \<and> mkpath world_ok ''./models/llama-x/''
       {(False, [''models'']), (False, [''models'', ''llama-x''])} =
     ([Print ''Path ./models/llama-x/ already exists! Great job!''],
      {(False, [''models'']), (False, [''models'', ''llama-x''])}, Inr ())
   \<and> fst (snd (bind (mkpath world_ok ''./models/llama-x/'')
          (\<lambda>_. mkpath world_ok ''./models/llama-x/'') {})) =
       {(False, [''models'']), (False, [''models'', ''llama-x''])}"
proof -
  have first: "mkpath world_ok ''./models/llama-x/'' {} =
     ([OsMakedirs ''./models/llama-x/'', Print ''mkdir'd ./models/llama-x/''],
      {(False, [''models'']), (False, [''models'', ''llama-x''])}, Inr ())"
    by (simp add: mkpath_def prog_defs world_ok_def exists_path_def made_dirs_def llama_dir)
  have there: "exists_path ''./models/llama-x/''
      {(False, [''models'']), (False, [''models'', ''llama-x''])}"
    by (simp add: exists_path_def llama_dir)
  from mkpath_idempotent [OF first there] first there show ?thesis by simp
qed

section \<open>Failing fast on the engine's status\<close>

lemma quiet_simps [simp]:
  "quiet []" "quiet (e # es) = (engine_failure e = None \<and> quiet es)"
  "quiet (xs @ ys) = (quiet xs \<and> quiet ys)"
  by (simp_all add: quiet_def)

lemma stops_at_append: "quiet xs \<Longrightarrow> stops_at (xs @ ys) r = stops_at ys r"
  by (induction xs) simp_all

lemma stops_at_quiet: "quiet xs \<Longrightarrow> stops_at xs r"
  by (induction xs) simp_all

lemma stops_atD:
  "stops_at evs r \<Longrightarrow> evs = pre @ ev # post \<Longrightarrow> engine_failure ev = Some msg
    \<Longrightarrow> post = [] \<and> r = Inl (RuntimeError msg)"
proof (induction pre arbitrary: evs)
  case Nil
  then show ?case by simp
next
  case (Cons a pre)
  then show ?case by (cases "engine_failure a") auto
qed

lemma say_quiet: "say s fs = (evs, fs', r) \<Longrightarrow> quiet evs"
  by (auto simp: say_def)

lemma call_quiet: "call ev x fs = (evs, fs', r) \<Longrightarrow> engine_failure ev = None \<Longrightarrow> quiet evs"
  by (auto simp: call_def)

lemma mkpath_quiet: "mkpath w path fs = (evs, fs', r) \<Longrightarrow> quiet evs"
  by (auto simp: mkpath_def prog_defs split: if_splits option.splits exn.splits)

lemma download_lora_quiet: "download_lora w p v fs = (evs, fs', r) \<Longrightarrow> quiet evs"
  by (auto simp: download_lora_def prog_defs split: if_splits option.splits sum.splits attr.splits)

lemma export_model_stops: "export_model w v fs = (evs, fs', r) \<Longrightarrow> stops_at evs r"
  by (auto simp: export_model_def prog_defs split: if_splits)

lemma build_model_stops:
  "build_model w p v fs = (evs, fs', r) \<Longrightarrow> stops_at evs r \<and> (\<forall>x. r = Inr x \<longrightarrow> quiet evs)"
  by (auto simp: build_model_def prog_defs split: if_splits option.splits)

lemma load_model_stops:
  "load_model w p v mp lp fs = (evs, fs', r) \<Longrightarrow> stops_at evs r \<and> (\<forall>x. r = Inr x \<longrightarrow> quiet evs)"
  by (auto simp: load_model_def prog_defs split: if_splits attr.splits)

lemma engine_steps_stops:
  assumes "bind (load_model w p v mp lp) (\<lambda>_. bind (build_model w p v) (\<lambda>_. export_model w v)) fs
           = (evs, fs', r)"
  shows "stops_at evs r"
  using assms
proof (cases rule: bindE)
  case (fail e)
  with load_model_stops [OF fail(1)] show ?thesis by simp
next
  case (ok evs1 fs1 x evs2)
  from load_model_stops [OF ok(1)] have q1: "quiet evs1" by simp
  from ok(2) have "stops_at evs2 r"
  proof (cases rule: bindE)
    case (fail e)
    with build_model_stops [OF fail(1)] show ?thesis by simp
  next
    case (ok evs3 fs3 y evs4)
    from build_model_stops [OF ok(1)] have "quiet evs3" by simp
    with export_model_stops [OF ok(2)] ok(3) show ?thesis by (simp add: stops_at_append)
  qed
  with q1 ok(3) show ?thesis by (simp add: stops_at_append)
qed

lemma stops_bind:
  assumes "bind f g fs = (evs, fs', r)"
    and "\<And>evs1 fs1 r1. f fs = (evs1, fs1, r1) \<Longrightarrow> quiet evs1"
    and "\<And>x fs1 evs2. g x fs1 = (evs2, fs', r) \<Longrightarrow> stops_at evs2 r"
  shows "stops_at evs r"
  using assms(1)
proof (cases rule: bindE)
  case (fail e)
  from assms(2) [OF fail(1)] show ?thesis by (rule stops_at_quiet)
next
  case (ok evs1 fs1 x evs2)
  from assms(2) [OF ok(1)] assms(3) [OF ok(2)] ok(3) show ?thesis
    by (simp add: stops_at_append)
qed

lemma pipeline_stops:
  assumes "remote_pipeline_to_local w p v fs = (evs, fs', r)"
  shows "stops_at evs r"
  using assms unfolding remote_pipeline_to_local_def
  apply -
  apply (erule stops_bind, erule say_quiet)
  apply (erule stops_bind, erule mkpath_quiet)
  apply (erule stops_bind, erule mkpath_quiet)
  apply (erule stops_bind, erule say_quiet)
  apply (erule stops_bind, erule call_quiet, simp)
  apply (erule stops_bind, erule download_lora_quiet)
  apply (erule stops_bind, erule say_quiet)
  apply (erule engine_steps_stops)
  done

text \<open>
  C3. In every run of the conversion sequence, an engine call (load, build or export)
  that returned a status other than 0 is the last event of the run: no later step is
  invoked, nothing more is printed, and the run ends in the \<open>RuntimeError\<close> whose
  message names the step and carries the status code.
\<close>

theorem fail_fast:
  assumes "remote_pipeline_to_local w p v fs = (evs, fs', r)"
    and "evs = pre @ ev # post" and "engine_failure ev = Some msg"
  shows "post = [] \<and> r = Inl (RuntimeError msg)"
  using stops_atD [OF pipeline_stops [OF assms(1)] assms(2) assms(3)] .

theorem fail_fast_witness:
  "engine_failure (RkllmBuild 1 ''w8a8'' ''rk3588'' 3 1) = Some ''Failed to build model: 1''
   \<and> last (fst (remote_pipeline_to_local world_build_fails (llama_request (Finite 0))
         llama_vars {})) = RkllmBuild 1 ''w8a8'' ''rk3588'' 3 1
   \<and> snd (snd (remote_pipeline_to_local world_build_fails (llama_request (Finite 0))
         llama_vars {})) = Inl (RuntimeError ''Failed to build model: 1'')"
proof -
  define run where
    "run = remote_pipeline_to_local world_build_fails (llama_request (Finite 0)) llama_vars {}"
  have fails: "engine_failure (RkllmBuild 1 ''w8a8'' ''rk3588'' 3 1)
      = Some ''Failed to build model: 1''"
    by simp
  have l: "last (fst run) = RkllmBuild 1 ''w8a8'' ''rk3588'' 3 1" and ne: "fst run \<noteq> []"
    by (simp_all add: run_def pipeline_defs prog_defs llama_request_def cli_pipeline_def
        llama_vars_def world_build_fails_def world_ok_def)
  from l ne have evs: "fst run = butlast (fst run) @ RkllmBuild 1 ''w8a8'' ''rk3588'' 3 1 # []"
    by (metis append_butlast_last_id)
  have "run = (fst run, fst (snd run), snd (snd run))" by simp
  from fail_fast [OF this [unfolded run_def] evs [unfolded run_def] fails] l fails
  show ?thesis by (simp add: run_def)
qed

section \<open>The adapter step\<close>

text \<open>
  C2. The claim fails on the code. With the driver's sentinel, the empty string, the
  adapter step is not skipped: after its announcement it calls \<open>snapshot_download\<close>
  with the empty repository name and the directory that name resolution left at
  \<open>None\<close>. With \<open>None\<close> as the identifier, name resolution itself fails. This holds in
  every world, for every request and from every file system.
\<close>

theorem empty_lora_id_is_downloaded:
  "take 2 (fst (download_lora w (p\<lparr>lora_id := Some ''''\<rparr>) v fs)) =
     [Print (''Downloading LoRA:  from HuggingFace to '' @ py_str (lora_dir v)),
      SnapshotDownload '''' (lora_dir v)]
   \<and> build_vars (p\<lparr>lora_id := None\<rparr>) =
       Inl (if after_slash (model_id p) = None then IndexError else AttributeError ''split'')
   \<and> lora_id (llama_request (Finite 0)) = Some ''''
   \<and> build_vars (llama_request (Finite 0)) = Inr llama_vars
   \<and> lora_name llama_vars = None \<and> lora_dir llama_vars = None
   \<and> lorapath llama_vars = Attr None
   \<and> SnapshotDownload '''' None \<in> set (fst (remote_pipeline_to_local world_ok
         (llama_request (Finite 0)) llama_vars {}))"
proof -
  have "take 2 (fst (download_lora w (p\<lparr>lora_id := Some ''''\<rparr>) v fs)) =
     [Print (''Downloading LoRA:  from HuggingFace to '' @ py_str (lora_dir v)),
      SnapshotDownload '''' (lora_dir v)]"
    by (auto simp: download_lora_def prog_defs split: sum.splits attr.splits)
  moreover have "build_vars (p\<lparr>lora_id := None\<rparr>) =
       Inl (if after_slash (model_id p) = None then IndexError else AttributeError ''split'')"
    by (simp add: build_vars_def Let_def split: option.splits)
  moreover have "SnapshotDownload '''' None \<in> set (fst (remote_pipeline_to_local world_ok
         (llama_request (Finite 0)) llama_vars {}))"
    by (simp add: pipeline_defs prog_defs llama_request_def cli_pipeline_def llama_vars_def
        world_defs)
  moreover have "lora_id (llama_request (Finite 0)) = Some ''''"
    by (simp add: llama_request_def cli_pipeline_def)
  ultimately show ?thesis
    by (simp add: llama_vars) (simp add: llama_vars_def)
qed

text \<open>
  C10. Every pipeline that the command constructs has the empty string as
  \<open>lora_id\<close> and \<open>HF\<close> as \<open>library_type\<close>, yet the adapter download is reached from the
  command line: the run of the scenario calls \<open>snapshot_download\<close> for it.
\<close>

theorem cli_reaches_lora_download:
  "lora_id (cli_pipeline w opt pf model q rate) = Some ''''
   \<and> library_type (cli_pipeline w opt pf model q rate) = ''HF''
   \<and> SnapshotDownload '''' None \<in> set (fst (convert world_ok [''org/llama-x''] [''w8a8'']
        [Finite 0] True rk3588 {}))"
  by (simp add: cli_defs hub_defs pipeline_defs prog_defs build_vars_def name_template_def
      world_defs Let_def)

section \<open>Authentication\<close>

text \<open>A failure of \<open>login\<close> alone is caught: the method returns when \<open>whoami\<close> answers.\<close>

lemma login_failure_caught:
  assumes "\<not> exists_path (home_dir hf @ ''/.cache/huggingface/token'') fs"
    and "prompt_token w = Some t"
    and "hf_whoami w t = Inr name"
  shows "\<exists>evs. login_to_hf w hf fs =
           (evs, fs, Inr (hf\<lparr>hf_token := Some t, hf_username := Some name\<rparr>))"
  using assms by (cases "hf_login w t") (simp_all add: login_to_hf_def prog_defs)

text \<open>
  C7. The claim fails on the code. When the hub rejects the token, the failure of
  \<open>login\<close> is caught and printed, but the call of \<open>whoami\<close> that follows is outside
  the handler: its exception leaves \<open>login_to_hf\<close>, and the command ends before any
  model is downloaded.
\<close>

theorem login_failure_aborts:
  "login_to_hf world_bad_token (llama_hub\<lparr>hf_token := None, hf_username := None\<rparr>) {} =
     ([Prompt, HfLogin ''hf_secret'',
       Print (''Login failed: Invalid token passed!\<newline>Gated models will be inaccessible, and ''
              @ ''you will not be able to upload to HuggingFace.''),
       HfWhoami ''hf_secret''], {}, Inl (OtherError ''401 Unauthorized''))
   \<and> convert world_bad_token [''org/llama-x'', ''org/other''] [''w8a8''] [Finite 0] True rk3588 {} =
     ([Prompt, HfLogin ''hf_secret'',
       Print (''Login failed: Invalid token passed!\<newline>Gated models will be inaccessible, and ''
              @ ''you will not be able to upload to HuggingFace.''),
       HfWhoami ''hf_secret''], {}, Inl (OtherError ''401 Unauthorized''))"
  by (simp add: cli_defs hub_defs prog_defs build_vars_def name_template_def
      world_defs Let_def llama_hub_def)

section \<open>Validation of the parameters\<close>

lemma lookup_all_find:
  "lookup_all cls members qs =
     (case find (\<lambda>q. q \<notin> set members) qs of None \<Rightarrow> Inr () | Some q \<Rightarrow> Inl (ValueError q cls))"
  by (induction qs) simp_all

text \<open>
  C6, as amended. When a qtype is not a member of the platform's enum or a hybrid rate
  is outside the unit interval, the command ends in an exception with no event at all
  (no call, no output) and the file system untouched. For a qtype the exception is the
  \<open>ValueError\<close> of the enum lookup, which names the first offending qtype; when all
  qtypes are members it is an \<open>AssertionError\<close>, which carries no value.
\<close>

theorem invalid_parameters_abort:
  assumes "(\<exists>q \<in> set qtypes. q \<notin> set (snd (qtypes_enum pf)))
         \<or> (\<exists>r \<in> set hybrid_rates. \<not> in_unit_interval r)"
  shows "convert w model_ids qtypes hybrid_rates opt pf fs =
           ([], fs, Inl (case find (\<lambda>q. q \<notin> set (snd (qtypes_enum pf))) qtypes of
                           Some q \<Rightarrow> ValueError q (fst (qtypes_enum pf))
                         | None \<Rightarrow> AssertionError))"
proof (cases "find (\<lambda>q. q \<notin> set (snd (qtypes_enum pf))) qtypes")
  case None
  then have "\<not> (\<exists>q \<in> set qtypes. q \<notin> set (snd (qtypes_enum pf)))"
    by (simp add: find_None_iff)
  with assms have "\<not> list_all in_unit_interval hybrid_rates"
    by (auto simp: list_all_iff)
  with None show ?thesis
    by (simp add: convert_def validate_def lookup_all_find prog_defs)
next
  case (Some q)
  then show ?thesis
    by (simp add: convert_def validate_def lookup_all_find prog_defs)
qed

theorem invalid_parameters_abort_witness:
  "convert world_ok [''org/llama-x''] [''w8a8'', ''w4a16''] [Finite 0] True rk3588 {} =
     ([], {}, Inl (ValueError ''w4a16'' ''QTypesRk3588''))"
  using invalid_parameters_abort [of "[''w8a8'', ''w4a16'']" rk3588 "[Finite 0]" world_ok
      "[''org/llama-x'']" True "{}"]
  by (simp add: QTypesRk3588_def)

text \<open>
  The claim as stated fails: two invocations whose offending hybrid rates differ end in
  the same exception, with nothing printed.
\<close>

theorem hybrid_rate_diagnostic_counterexample:
  "convert world_ok [''org/llama-x''] [''w8a8''] [Finite 2] True rk3588 {}
     = ([], {}, Inl AssertionError)
   \<and> convert world_ok [''org/llama-x''] [''w8a8''] [Finite 3] True rk3588 {}
     = ([], {}, Inl AssertionError)"
  by (simp add: convert_def validate_def QTypesRk3588_def prog_defs)

section \<open>Isolation of failures in the batch\<close>

text \<open>
  C4, as amended. For a combination \<open>c\<close> followed by the combinations \<open>cs\<close>:
  when the statements before \<open>try\<close> have succeeded and the conversion or upload of
  \<open>c\<close> raises a \<open>RuntimeError\<close>, the loop prints \<open>Model conversion failed:\<close> with the
  message of the error, and nothing else, and goes on with \<open>cs\<close>, whose events and
  result follow; when conversion or upload raises an exception of another type, the
  loop ends in that exception and nothing of \<open>cs\<close> is run; and when a statement
  before \<open>try\<close> raises, the loop ends in that exception likewise.
\<close>

theorem runtime_error_isolated:
  "(setup_one w opt pf c fs = (evs0, fs0, Inr (p, v, hf))
      \<longrightarrow> convert_and_upload w p v hf fs0 = (evs1, fs1, Inl (RuntimeError m))
      \<longrightarrow> convert_loop w opt pf cs fs1 = (evs2, fs2, r)
      \<longrightarrow> convert_loop w opt pf (c # cs) fs =
            (evs0 @ evs1 @ Print (''Model conversion failed: '' @ m) # evs2, fs2, r))
   \<and> (setup_one w opt pf c fs = (evs0, fs0, Inr (p, v, hf))
      \<longrightarrow> convert_and_upload w p v hf fs0 = (evs1, fs1, Inl e)
      \<longrightarrow> (\<forall>m. e \<noteq> RuntimeError m)
      \<longrightarrow> convert_loop w opt pf (c # cs) fs = (evs0 @ evs1, fs1, Inl e))
   \<and> (setup_one w opt pf c fs = (evs0, fs0, Inl e)
      \<longrightarrow> convert_loop w opt pf (c # cs) fs = (evs0, fs0, Inl e))"
proof (intro conjI impI)
  assume "setup_one w opt pf c fs = (evs0, fs0, Inr (p, v, hf))"
    and "convert_and_upload w p v hf fs0 = (evs1, fs1, Inl (RuntimeError m))"
    and "convert_loop w opt pf cs fs1 = (evs2, fs2, r)"
  then show "convert_loop w opt pf (c # cs) fs =
      (evs0 @ evs1 @ Print (''Model conversion failed: '' @ m) # evs2, fs2, r)"
    by (simp add: convert_one_def try_one_def prog_defs)
next
  assume "setup_one w opt pf c fs = (evs0, fs0, Inr (p, v, hf))"
    and "convert_and_upload w p v hf fs0 = (evs1, fs1, Inl e)"
    and "\<forall>m. e \<noteq> RuntimeError m"
  then show "convert_loop w opt pf (c # cs) fs = (evs0 @ evs1, fs1, Inl e)"
    by (cases e) (simp_all add: convert_one_def try_one_def prog_defs)
next
  assume "setup_one w opt pf c fs = (evs0, fs0, Inl e)"
  then show "convert_loop w opt pf (c # cs) fs = (evs0, fs0, Inl e)"
    by (simp add: convert_one_def prog_defs)
qed

text \<open>
  The three parts at work: an engine load that fails with status 1, a base model
  that the hub does not have, and a token that the hub rejects.
\<close>

theorem runtime_error_isolated_witness:
  "(\<exists>evs0 evs1 fs1 evs2 fs2 r.
      setup_one world_load_fails True rk3588 (''org/llama-x'', ''w8a8'', Finite 0) {} =
        (evs0, {}, Inr (llama_request (Finite 0), llama_vars, llama_hub))
    \<and> convert_and_upload world_load_fails (llama_request (Finite 0)) llama_vars llama_hub {} =
        (evs1, fs1, Inl (RuntimeError ''Failed to load model: 1''))
    \<and> convert_loop world_load_fails True rk3588 [(''org/llama-x'', ''w8a8_g128'', Finite 0)] fs1 =
        (evs2, fs2, r)
    \<and> convert_loop world_load_fails True rk3588
        [(''org/llama-x'', ''w8a8'', Finite 0), (''org/llama-x'', ''w8a8_g128'', Finite 0)] {} =
        (evs0 @ evs1 @ Print ''Model conversion failed: Failed to load model: 1'' # evs2, fs2, r))
   \<and> (\<exists>evs0 p v hf evs1 fs1.
      setup_one world_missing True rk3588 (''org/missing'', ''w8a8'', Finite 0) {} =
        (evs0, {}, Inr (p, v, hf))
    \<and> convert_and_upload world_missing p v hf {} =
        (evs1, fs1, Inl (RepositoryNotFoundError ''404 Not Found''))
    \<and> convert_loop world_missing True rk3588
        [(''org/missing'', ''w8a8'', Finite 0), (''org/llama-x'', ''w8a8'', Finite 0)] {} =
        (evs0 @ evs1, fs1, Inl (RepositoryNotFoundError ''404 Not Found'')))
   \<and> (\<exists>evs0.
      setup_one world_bad_token True rk3588 (''org/llama-x'', ''w8a8'', Finite 0) {} =
        (evs0, {}, Inl (OtherError ''401 Unauthorized''))
    \<and> convert_loop world_bad_token True rk3588
        [(''org/llama-x'', ''w8a8'', Finite 0), (''org/llama-x'', ''w8a8_g128'', Finite 0)] {} =
        (evs0, {}, Inl (OtherError ''401 Unauthorized'')))"
proof (intro conjI)
  define S where
    "S = setup_one world_load_fails True rk3588 (''org/llama-x'', ''w8a8'', Finite 0) {}"
  define T where
    "T = convert_and_upload world_load_fails (llama_request (Finite 0)) llama_vars llama_hub {}"
  define U where
    "U = convert_loop world_load_fails True rk3588 [(''org/llama-x'', ''w8a8_g128'', Finite 0)]
           (fst (snd T))"
  have "snd S = ({}, Inr (llama_request (Finite 0), llama_vars, llama_hub))"
    by (simp add: S_def setup_one_def hub_defs prog_defs llama_hub_def build_vars_def
        name_template_def Let_def llama_request_def cli_pipeline_def llama_vars_def world_defs)
  then have s: "setup_one world_load_fails True rk3588 (''org/llama-x'', ''w8a8'', Finite 0) {} =
      (fst S, {}, Inr (llama_request (Finite 0), llama_vars, llama_hub))"
    by (simp add: S_def prod_eq_iff)
  have "snd (snd T) = Inl (RuntimeError ''Failed to load model: 1'')"
    by (simp add: T_def convert_and_upload_def pipeline_defs prog_defs llama_request_def
        cli_pipeline_def llama_vars_def world_defs)
  then have t: "convert_and_upload world_load_fails (llama_request (Finite 0)) llama_vars
      llama_hub {} = (fst T, fst (snd T), Inl (RuntimeError ''Failed to load model: 1''))"
    by (simp add: T_def prod_eq_iff)
  have u: "convert_loop world_load_fails True rk3588
      [(''org/llama-x'', ''w8a8_g128'', Finite 0)] (fst (snd T)) = (fst U, fst (snd U), snd (snd U))"
    by (simp add: U_def)
  from runtime_error_isolated [where w = world_load_fails and opt = True and pf = rk3588
      and c = "(''org/llama-x'', ''w8a8'', Finite 0)" and fs = "{}" and ?evs0.0 = "fst S"
      and ?fs0.0 = "{}" and p = "llama_request (Finite 0)" and v = llama_vars and hf = llama_hub
      and ?evs1.0 = "fst T" and ?fs1.0 = "fst (snd T)" and m = "''Failed to load model: 1''"
      and cs = "[(''org/llama-x'', ''w8a8_g128'', Finite 0)]" and ?evs2.0 = "fst U"
      and ?fs2.0 = "fst (snd U)" and r = "snd (snd U)"] s t u
  have "convert_loop world_load_fails True rk3588
      [(''org/llama-x'', ''w8a8'', Finite 0), (''org/llama-x'', ''w8a8_g128'', Finite 0)] {} =
      (fst S @ fst T @ Print ''Model conversion failed: Failed to load model: 1'' # fst U,
       fst (snd U), snd (snd U))"
    by simp
  with s t u show "\<exists>evs0 evs1 fs1 evs2 fs2 r.
      setup_one world_load_fails True rk3588 (''org/llama-x'', ''w8a8'', Finite 0) {} =
        (evs0, {}, Inr (llama_request (Finite 0), llama_vars, llama_hub))
    \<and> convert_and_upload world_load_fails (llama_request (Finite 0)) llama_vars llama_hub {} =
        (evs1, fs1, Inl (RuntimeError ''Failed to load model: 1''))
    \<and> convert_loop world_load_fails True rk3588 [(''org/llama-x'', ''w8a8_g128'', Finite 0)] fs1 =
        (evs2, fs2, r)
    \<and> convert_loop world_load_fails True rk3588
        [(''org/llama-x'', ''w8a8'', Finite 0), (''org/llama-x'', ''w8a8_g128'', Finite 0)] {} =
        (evs0 @ evs1 @ Print ''Model conversion failed: Failed to load model: 1'' # evs2, fs2, r)"
    by blast
next
  define S where
    "S = setup_one world_missing True rk3588 (''org/missing'', ''w8a8'', Finite 0) {}"
  define X where "X = projr (snd (snd S))"
  define T where
    "T = convert_and_upload world_missing (fst X) (fst (snd X)) (snd (snd X)) {}"
  have "snd S = ({}, Inr X)"
    by (simp add: X_def S_def setup_one_def hub_defs prog_defs build_vars_def
        name_template_def Let_def cli_pipeline_def world_defs)
  then have s: "setup_one world_missing True rk3588 (''org/missing'', ''w8a8'', Finite 0) {} =
      (fst S, {}, Inr (fst X, fst (snd X), snd (snd X)))"
    by (simp add: S_def prod_eq_iff)
  have "snd (snd T) = Inl (RepositoryNotFoundError ''404 Not Found'')"
    by (simp add: T_def X_def S_def setup_one_def hub_defs convert_and_upload_def pipeline_defs
        prog_defs build_vars_def name_template_def Let_def cli_pipeline_def world_defs)
  then have t: "convert_and_upload world_missing (fst X) (fst (snd X)) (snd (snd X)) {} =
      (fst T, fst (snd T), Inl (RepositoryNotFoundError ''404 Not Found''))"
    by (simp add: T_def prod_eq_iff)
  from runtime_error_isolated [where w = world_missing and opt = True and pf = rk3588
      and c = "(''org/missing'', ''w8a8'', Finite 0)" and fs = "{}" and ?evs0.0 = "fst S"
      and ?fs0.0 = "{}" and p = "fst X" and v = "fst (snd X)" and hf = "snd (snd X)"
      and ?evs1.0 = "fst T" and ?fs1.0 = "fst (snd T)"
      and e = "RepositoryNotFoundError ''404 Not Found''"
      and cs = "[(''org/llama-x'', ''w8a8'', Finite 0)]"] s t
  have "convert_loop world_missing True rk3588
      [(''org/missing'', ''w8a8'', Finite 0), (''org/llama-x'', ''w8a8'', Finite 0)] {} =
      (fst S @ fst T, fst (snd T), Inl (RepositoryNotFoundError ''404 Not Found''))"
    by simp
  with s t show "\<exists>evs0 p v hf evs1 fs1.
      setup_one world_missing True rk3588 (''org/missing'', ''w8a8'', Finite 0) {} =
        (evs0, {}, Inr (p, v, hf))
    \<and> convert_and_upload world_missing p v hf {} =
        (evs1, fs1, Inl (RepositoryNotFoundError ''404 Not Found''))
    \<and> convert_loop world_missing True rk3588
        [(''org/missing'', ''w8a8'', Finite 0), (''org/llama-x'', ''w8a8'', Finite 0)] {} =
        (evs0 @ evs1, fs1, Inl (RepositoryNotFoundError ''404 Not Found''))"
    by blast
next
  define S where
    "S = setup_one world_bad_token True rk3588 (''org/llama-x'', ''w8a8'', Finite 0) {}"
  have "snd S = ({}, Inl (OtherError ''401 Unauthorized''))"
    by (simp add: S_def setup_one_def hub_defs prog_defs build_vars_def
        name_template_def Let_def cli_pipeline_def world_defs)
  then have s: "setup_one world_bad_token True rk3588 (''org/llama-x'', ''w8a8'', Finite 0) {} =
      (fst S, {}, Inl (OtherError ''401 Unauthorized''))"
    by (simp add: S_def prod_eq_iff)
  from runtime_error_isolated [where w = world_bad_token and opt = True and pf = rk3588
      and c = "(''org/llama-x'', ''w8a8'', Finite 0)" and fs = "{}" and ?evs0.0 = "fst S"
      and ?fs0.0 = "{}" and e = "OtherError ''401 Unauthorized''"
      and cs = "[(''org/llama-x'', ''w8a8_g128'', Finite 0)]"] s
  have "convert_loop world_bad_token True rk3588
      [(''org/llama-x'', ''w8a8'', Finite 0), (''org/llama-x'', ''w8a8_g128'', Finite 0)] {} =
      (fst S, {}, Inl (OtherError ''401 Unauthorized''))"
    by simp
  with s show "\<exists>evs0.
      setup_one world_bad_token True rk3588 (''org/llama-x'', ''w8a8'', Finite 0) {} =
        (evs0, {}, Inl (OtherError ''401 Unauthorized''))
    \<and> convert_loop world_bad_token True rk3588
        [(''org/llama-x'', ''w8a8'', Finite 0), (''org/llama-x'', ''w8a8_g128'', Finite 0)] {} =
        (evs0, {}, Inl (OtherError ''401 Unauthorized''))"
    by blast
qed

text \<open>
  The claim as stated fails twice. The download error of the first model is no
  \<open>RuntimeError\<close>, so it leaves the loop, and the second model is never started. And
  what is printed for a failed combination does not identify it: where the engine's
  load fails, the runs for the hybrid rates 0.0 and 0.5 are the same, event for event.
\<close>

theorem batch_aborts_counterexample:
  "snd (snd (convert world_missing [''org/missing'', ''org/llama-x''] [''w8a8''] [Finite 0]
        True rk3588 {})) = Inl (RepositoryNotFoundError ''404 Not Found'')
   \<and> HfAuthCheck ''org/llama-x'' \<notin> set (fst (convert world_missing
        [''org/missing'', ''org/llama-x''] [''w8a8''] [Finite 0] True rk3588 {}))
   \<and> convert world_load_fails [''org/llama-x''] [''w8a8''] [Finite 0] True rk3588 {}
       = convert world_load_fails [''org/llama-x''] [''w8a8''] [Finite (1 / 2)] True rk3588 {}
   \<and> Print ''Model conversion failed: Failed to load model: 1'' \<in> set (fst (convert
        world_load_fails [''org/llama-x''] [''w8a8''] [Finite 0] True rk3588 {}))
   \<and> hybrid_rate (cli_pipeline world_load_fails True rk3588 ''org/llama-x'' ''w8a8'' (Finite 0))
       \<noteq> hybrid_rate (cli_pipeline world_load_fails True rk3588 ''org/llama-x'' ''w8a8''
             (Finite (1 / 2)))"
  by (simp add: cli_defs hub_defs pipeline_defs prog_defs build_vars_def name_template_def
      world_defs Let_def)

section \<open>The accessibility check is advisory\<close>

lemma calls_of_append [simp]: "calls_of (xs @ ys) = calls_of xs @ calls_of ys"
  by (simp add: calls_of_def)

lemma calls_of_simps [simp]: "calls_of [] = []"
  "calls_of (e # es) = (if is_call e then e # calls_of es else calls_of es)"
  by (simp_all add: calls_of_def)

lemma repo_check_run:
  assumes "check_outcome (hf_auth_check w m)"
  shows "\<exists>s x. repo_check w m fs = ([HfAuthCheck m, Print s], fs, Inr x)"
proof (cases "hf_auth_check w m")
  case None
  then show ?thesis by (simp add: repo_check_def prog_defs)
next
  case (Some e)
  with assms show ?thesis by (cases e) (simp_all add: repo_check_def prog_defs)
qed

text \<open>No other statement of the program consults the answer of the check.\<close>

lemma hf_auth_check_irrelevant:
  "build_vars (cli_pipeline (w\<lparr>hf_auth_check := f\<rparr>) opt pf model q rate)
     = build_vars (cli_pipeline w opt pf model q rate)"
  "cli_pipeline (w\<lparr>hf_auth_check := f\<rparr>) opt pf model q rate = cli_pipeline w opt pf model q rate"
  "HubHelpers (w\<lparr>hf_auth_check := f\<rparr>) = HubHelpers w"
  "login_to_hf (w\<lparr>hf_auth_check := f\<rparr>) = login_to_hf w"
  "mkpath (w\<lparr>hf_auth_check := f\<rparr>) = mkpath w"
  "download_lora (w\<lparr>hf_auth_check := f\<rparr>) = download_lora w"
  "load_model (w\<lparr>hf_auth_check := f\<rparr>) = load_model w"
  "build_model (w\<lparr>hf_auth_check := f\<rparr>) = build_model w"
  "export_model (w\<lparr>hf_auth_check := f\<rparr>) = export_model w"
  "build_card (w\<lparr>hf_auth_check := f\<rparr>) = build_card w"
  by (simp_all add: fun_eq_iff cli_pipeline_def HubHelpers_def login_to_hf_def mkpath_def
      download_lora_def load_model_def build_model_def export_model_def build_card_def
      os_makedirs_def cong: if_cong option.case_cong sum.case_cong exn.case_cong attr.case_cong)

lemma try_one_irrelevant: "try_one (w\<lparr>hf_auth_check := f\<rparr>) = try_one w"
  by (simp add: fun_eq_iff try_one_def convert_and_upload_def remote_pipeline_to_local_def
      upload_to_repo_def hf_auth_check_irrelevant
      cong: if_cong option.case_cong sum.case_cong exn.case_cong attr.case_cong)

lemma same_run_refl [simp]: "same_run X X"
  by (simp add: same_run_def)

lemma same_run_bind:
  assumes "same_run (f fs) (f' fs)" and "\<And>x fs1. same_run (g x fs1) (g' x fs1)"
  shows "same_run (bind f g fs) (bind f' g' fs)"
proof -
  obtain evs fs1 r where f: "f fs = (evs, fs1, r)" by (cases "f fs") auto
  with assms(1) obtain evs' where f': "f' fs = (evs', fs1, r)" and c: "calls_of evs' = calls_of evs"
    by (cases "f' fs") (auto simp: same_run_def)
  show ?thesis
  proof (cases r)
    case (Inl e)
    with f f' c show ?thesis by (simp add: same_run_def bind_def)
  next
    case (Inr x)
    with f f' c assms(2) [of x fs1] show ?thesis
      by (auto simp: same_run_def bind_def split: prod.splits)
  qed
qed

lemma repo_check_same_run:
  assumes "check_outcome (hf_auth_check w m)" and "check_outcome (hf_auth_check w' m)"
  shows "same_run (bind (repo_check w' m) (\<lambda>_. k) fs) (bind (repo_check w m) (\<lambda>_. k) fs)"
proof -
  from repo_check_run [OF assms(1)] obtain s x
    where a: "repo_check w m fs = ([HfAuthCheck m, Print s], fs, Inr x)" by blast
  from repo_check_run [OF assms(2)] obtain s' x'
    where b: "repo_check w' m fs = ([HfAuthCheck m, Print s'], fs, Inr x')" by blast
  from a b show ?thesis by (simp add: same_run_def bind_def split: prod.splits)
qed

lemma setup_one_advisory:
  assumes "\<And>m. check_outcome (hf_auth_check w m)" and "\<And>m. check_outcome (f m)"
  shows "same_run (setup_one (w\<lparr>hf_auth_check := f\<rparr>) opt pf c fs) (setup_one w opt pf c fs)"
proof -
  obtain model q rate where c: "c = (model, q, rate)" by (cases c)
  have f: "check_outcome (hf_auth_check (w\<lparr>hf_auth_check := f\<rparr>) m)" for m
    using assms(2) by simp
  show ?thesis
    unfolding c setup_one_def hf_auth_check_irrelevant prod.case
    by (intro same_run_bind same_run_refl repo_check_same_run assms(1) f)
qed

lemma convert_one_advisory:
  assumes "\<And>m. check_outcome (hf_auth_check w m)" and "\<And>m. check_outcome (f m)"
  shows "same_run (convert_one (w\<lparr>hf_auth_check := f\<rparr>) opt pf c fs) (convert_one w opt pf c fs)"
  unfolding convert_one_def try_one_irrelevant
  by (intro same_run_bind same_run_refl setup_one_advisory assms)

lemma convert_loop_advisory:
  assumes "\<And>m. check_outcome (hf_auth_check w m)" and "\<And>m. check_outcome (f m)"
  shows "same_run (convert_loop (w\<lparr>hf_auth_check := f\<rparr>) opt pf cs fs) (convert_loop w opt pf cs fs)"
proof (induction cs arbitrary: fs)
  case Nil
  show ?case by simp
next
  case (Cons c cs)
  show ?case
    unfolding convert_loop.simps
    by (intro same_run_bind convert_one_advisory assms Cons.IH)
qed

text \<open>
  C8. Take any world in which the accessibility check answers accessible, gated or not
  found for every repository, and change the answers of the check to any others of these
  three. The command then makes the same calls with the same arguments in the same
  order, leaves the same file system and ends in the same result; only printed lines
  can differ.
\<close>

theorem repo_check_advisory:
  assumes "\<And>m. check_outcome (hf_auth_check w m)" and "\<And>m. check_outcome (f m)"
  shows "calls_of (fst (convert (w\<lparr>hf_auth_check := f\<rparr>) model_ids qtypes hybrid_rates opt pf fs))
           = calls_of (fst (convert w model_ids qtypes hybrid_rates opt pf fs))
       \<and> snd (convert (w\<lparr>hf_auth_check := f\<rparr>) model_ids qtypes hybrid_rates opt pf fs)
           = snd (convert w model_ids qtypes hybrid_rates opt pf fs)"
proof -
  have "same_run (convert (w\<lparr>hf_auth_check := f\<rparr>) model_ids qtypes hybrid_rates opt pf fs)
          (convert w model_ids qtypes hybrid_rates opt pf fs)"
    unfolding convert_def
    by (intro same_run_bind same_run_refl convert_loop_advisory assms)
  then show ?thesis by (simp add: same_run_def)
qed

theorem repo_check_advisory_witness:
  "calls_of (fst (convert (world_ok\<lparr>hf_auth_check := (\<lambda>_. Some (RepositoryNotFoundError ''404''))\<rparr>)
       [''org/llama-x''] [''w8a8''] [Finite 0] True rk3588 {}))
     = calls_of (fst (convert world_ok [''org/llama-x''] [''w8a8''] [Finite 0] True rk3588 {}))
   \<and> snd (convert (world_ok\<lparr>hf_auth_check := (\<lambda>_. Some (RepositoryNotFoundError ''404''))\<rparr>)
       [''org/llama-x''] [''w8a8''] [Finite 0] True rk3588 {})
     = snd (convert world_ok [''org/llama-x''] [''w8a8''] [Finite 0] True rk3588 {})
   \<and> check_outcome (hf_auth_check world_ok ''org/llama-x'')
   \<and> check_outcome (Some (RepositoryNotFoundError ''404''))"
  using repo_check_advisory [of world_ok "\<lambda>_. Some (RepositoryNotFoundError ''404'')"
      "[''org/llama-x'']" "[''w8a8'']" "[Finite 0]" True rk3588 "{}"]
  by (simp add: world_ok_def)

section \<open>The scenario\<close>

lemma login_succeeds:
  assumes "exists_path (home_dir hf @ ''/.cache/huggingface/token'') fs
             \<Longrightarrow> read_file w (home_dir hf @ ''/.cache/huggingface/token'') = Inr t"
    and "\<not> exists_path (home_dir hf @ ''/.cache/huggingface/token'') fs
             \<Longrightarrow> prompt_token w = Some t"
    and "hf_whoami w t = Inr name"
  shows "\<exists>evs. login_to_hf w hf fs =
           (evs, fs, Inr (hf\<lparr>hf_token := Some t, hf_username := Some name\<rparr>))"
  using assms
  by (cases "hf_login w t"; cases "exists_path (home_dir hf @ ''/.cache/huggingface/token'') fs")
     (simp_all add: login_to_hf_def prog_defs)

text \<open>
  C5, as amended. For \<open>org/llama-x\<close>, platform \<open>rk3588\<close>, w8a8, hybrid rate \<open>0.0\<close> and
  optimisation on, name resolution succeeds and the artifact path is
  \<open>./models/llama-x-rk3588/llama-x-rk3588-w8a8-opt-1-hybrid-ratio-0.0.rkllm\<close>: the
  directory carries the model name without its owner. The command, run for this one
  combination, constructs that request, completes and leaves \<open>repo_url\<close> at the URL
  that the hub returned, when every step of the scenario goes well: the interpreter
  formats the platform as \<open>rk3588\<close> and the rate as \<open>0.0\<close>; \<open>HOME\<close> is set; the token
  file if there is one, and the prompt otherwise, gives a token and \<open>whoami\<close> answers
  for it; the accessibility
  check answers accessible, gated or not found; the directories can be made; the base
  model downloads; load, build and export return status 0; the hub creates the
  repository; and the card, the copy and the upload succeed.
\<close>

theorem scenario_path_and_url:
  assumes "platform_str w rk3588 = ''rk3588''" and "float_str w (Finite 0) = ''0.0''"
    and "env_home w = Some h"
    and "exists_path (h @ ''/.cache/huggingface/token'') fs
           \<Longrightarrow> read_file w (h @ ''/.cache/huggingface/token'') = Inr t"
    and "\<not> exists_path (h @ ''/.cache/huggingface/token'') fs \<Longrightarrow> prompt_token w = Some t"
    and "hf_whoami w t = Inr u"
    and "check_outcome (hf_auth_check w ''org/llama-x'')"
    and "\<And>d. makedirs_error w d = None"
    and "snapshot_download w ''org/llama-x'' (Some ''./models/llama-x/'') = Inr mp"
    and "\<And>l. load_huggingface w mp l ''cpu'' = 0"
    and "rkllm_build w 1 ''w8a8'' ''rk3588'' 3 = 0"
    and "export_rkllm w
           ''./models/llama-x-rk3588/llama-x-rk3588-w8a8-opt-1-hybrid-ratio-0.0.rkllm'' = 0"
    and "create_repo w (u @ ''/llama-x-rk3588-1.1.4'') = Inr url"
    and "card_load w ''org/llama-x'' = Inr (yaml, body)"
    and "\<And>text path. card_save w text path = None"
    and "copytree w ''./models/llama-x/'' ''./models/llama-x-rk3588/'' = None"
    and "upload_folder w (u @ ''/llama-x-rk3588-1.1.4'') ''./models/llama-x-rk3588/'' = None"
  shows "build_vars (llama_request (Finite 0)) = Inr llama_vars
       \<and> export_path llama_vars @ export_name llama_vars @ ''.rkllm'' =
           ''./models/llama-x-rk3588/llama-x-rk3588-w8a8-opt-1-hybrid-ratio-0.0.rkllm''
       \<and> (\<exists>evs0 evs1 fs1.
            setup_one w True rk3588 (''org/llama-x'', ''w8a8'', Finite 0) fs =
              (evs0, fs, Inr (llama_request (Finite 0), llama_vars,
                 llama_hub\<lparr>home_dir := h, hf_token := Some t, hf_username := Some u\<rparr>))
          \<and> convert_and_upload w (llama_request (Finite 0)) llama_vars
              (llama_hub\<lparr>home_dir := h, hf_token := Some t, hf_username := Some u\<rparr>) fs =
              (evs1, fs1, Inr (llama_hub\<lparr>home_dir := h, hf_token := Some t,
                 hf_username := Some u, repo_url := Some url\<rparr>))
          \<and> ExportRkllm
                ''./models/llama-x-rk3588/llama-x-rk3588-w8a8-opt-1-hybrid-ratio-0.0.rkllm'' 0
              \<in> set evs1
          \<and> convert w [''org/llama-x''] [''w8a8''] [Finite 0] True rk3588 fs =
              (evs0 @ evs1, fs1, Inr ()))"
proof -
  let ?hub = "llama_hub\<lparr>home_dir := h, hf_token := Some t, hf_username := Some u\<rparr>"
  have req: "cli_pipeline w True rk3588 ''org/llama-x'' ''w8a8'' (Finite 0)
      = llama_request (Finite 0)"
    using assms(1,2) by (simp add: llama_request_fields cli_pipeline_def)
  have path: "export_path llama_vars @ export_name llama_vars @ ''.rkllm'' =
           ''./models/llama-x-rk3588/llama-x-rk3588-w8a8-opt-1-hybrid-ratio-0.0.rkllm''"
    by (simp add: llama_vars_def)
  have hub0: "HubHelpers w ''rk3588'' ''org/llama-x'' (Some '''') ''w8a8'' ''1.1.4'' fs =
      ([], fs, Inr (llama_hub\<lparr>home_dir := h, hf_token := None, hf_username := None\<rparr>))"
    using assms(3) by (simp add: HubHelpers_def prog_defs llama_hub_def)
  from login_succeeds [of "llama_hub\<lparr>home_dir := h, hf_token := None, hf_username := None\<rparr>"
      fs w t u] assms(4,5,6)
  obtain el where login:
    "login_to_hf w (llama_hub\<lparr>home_dir := h, hf_token := None, hf_username := None\<rparr>) fs =
       (el, fs, Inr ?hub)"
    by auto
  from repo_check_run [OF assms(7)] obtain s x where
    check: "repo_check w ''org/llama-x'' fs = ([HfAuthCheck ''org/llama-x'', Print s], fs, Inr x)"
    by blast
  from hub0 login check
  have prep: "setup_one w True rk3588 (''org/llama-x'', ''w8a8'', Finite 0) fs =
      (el @ [HfAuthCheck ''org/llama-x'', Print s], fs,
       Inr (llama_request (Finite 0), llama_vars, ?hub))"
    by (simp add: setup_one_def req llama_vars bind_def lift_def ret_def)
       (simp add: llama_request_fields llama_vars_def)
  have m1: "\<exists>evs fs1. mkpath w d fs0 = (evs, fs1, Inr ())" for d fs0
    using assms(8) by (simp add: mkpath_def prog_defs)
  have lora: "\<exists>evs lp.
      download_lora w (llama_request (Finite 0)) llama_vars fs0 = (evs, fs0, Inr (Attr lp))"
    for fs0
    by (cases "snapshot_download w '''' None")
       (simp_all add: download_lora_def prog_defs llama_request_fields llama_vars_def)
  have conv: "\<exists>evs fs1. remote_pipeline_to_local w (llama_request (Finite 0)) llama_vars fs
      = (evs, fs1, Inr ())
    \<and> ExportRkllm
         ''./models/llama-x-rk3588/llama-x-rk3588-w8a8-opt-1-hybrid-ratio-0.0.rkllm'' 0
       \<in> set evs"
  proof -
    obtain e1 f1 where a: "mkpath w ''./models/llama-x/'' fs = (e1, f1, Inr ())"
      using m1 by blast
    obtain e2 f2 where b: "mkpath w ''./models/llama-x-rk3588/'' f1 = (e2, f2, Inr ())"
      using m1 by blast
    obtain e3 lp where c:
      "download_lora w (llama_request (Finite 0)) llama_vars f2 = (e3, f2, Inr (Attr lp))"
      using lora by blast
    from a b c assms(9,10,11,12) show ?thesis
      by (simp add: remote_pipeline_to_local_def load_model_def build_model_def export_model_def
          ret_def raise_def say_def call_def bind_def llama_request_fields llama_vars_def)
  qed
  have up: "\<exists>evs. upload_to_repo w ?hub
      ''llama-x'' ''./models/llama-x/'' ''./models/llama-x-rk3588/'' fs1 =
      (evs, fs1, Inr (?hub\<lparr>repo_url := Some url\<rparr>))"
    for fs1
    using assms(13,14,15,16,17)
    by (simp add: upload_to_repo_def build_card_def prog_defs llama_hub_def)
  from conv obtain evs fs1 where
    c: "remote_pipeline_to_local w (llama_request (Finite 0)) llama_vars fs = (evs, fs1, Inr ())"
    and ex: "ExportRkllm
         ''./models/llama-x-rk3588/llama-x-rk3588-w8a8-opt-1-hybrid-ratio-0.0.rkllm'' 0
       \<in> set evs"
    by blast
  from up [of fs1] obtain evs' where u:
    "upload_to_repo w ?hub ''llama-x'' ''./models/llama-x/'' ''./models/llama-x-rk3588/'' fs1 =
      (evs', fs1, Inr (?hub\<lparr>repo_url := Some url\<rparr>))"
    by blast
  from c u have cau:
    "convert_and_upload w (llama_request (Finite 0)) llama_vars ?hub fs =
     (evs @ evs', fs1, Inr (?hub\<lparr>repo_url := Some url\<rparr>))"
    by (simp add: convert_and_upload_def bind_def llama_vars_def)
  from prep cau have run:
    "convert w [''org/llama-x''] [''w8a8''] [Finite 0] True rk3588 fs =
       ((el @ [HfAuthCheck ''org/llama-x'', Print s]) @ evs @ evs', fs1, Inr ())"
    by (simp add: convert_def validate_def QTypesRk3588_def combinations_def convert_one_def
        try_one_def prog_defs)
  from ex have "ExportRkllm
         ''./models/llama-x-rk3588/llama-x-rk3588-w8a8-opt-1-hybrid-ratio-0.0.rkllm'' 0
       \<in> set (evs @ evs')"
    by simp
  with prep cau run llama_vars path show ?thesis by blast
qed

theorem scenario_path_and_url_witness:
  "build_vars (llama_request (Finite 0)) = Inr llama_vars
   \<and> export_path llama_vars @ export_name llama_vars @ ''.rkllm'' =
       ''./models/llama-x-rk3588/llama-x-rk3588-w8a8-opt-1-hybrid-ratio-0.0.rkllm''
   \<and> (\<exists>evs0 evs1 fs1.
        setup_one world_ok True rk3588 (''org/llama-x'', ''w8a8'', Finite 0) {} =
          (evs0, {}, Inr (llama_request (Finite 0), llama_vars, llama_hub))
      \<and> convert_and_upload world_ok (llama_request (Finite 0)) llama_vars llama_hub {} =
          (evs1, fs1, Inr (llama_hub\<lparr>repo_url :=
             Some ''https://huggingface.co/user/llama-x-rk3588-1.1.4''\<rparr>))
      \<and> ExportRkllm
            ''./models/llama-x-rk3588/llama-x-rk3588-w8a8-opt-1-hybrid-ratio-0.0.rkllm'' 0
          \<in> set evs1
      \<and> convert world_ok [''org/llama-x''] [''w8a8''] [Finite 0] True rk3588 {} =
          (evs0 @ evs1, fs1, Inr ()))"
  using scenario_path_and_url [where w = world_ok and h = "''/home/user''" and t = "''hf_secret''"
      and u = "''user''" and mp = "''./models/llama-x/''"
      and url = "''https://huggingface.co/user/llama-x-rk3588-1.1.4''"
      and yaml = "''license: mit''" and body = "''A model.''" and fs = "{}"]
  by (simp add: world_ok_def llama_hub_def)

text \<open>
  The claim as stated fails: the directory of the path it names starts with the owner,
  which name resolution strips.
\<close>

theorem scenario_counterexample:
  "llama_request (Finite 0) =
     \<lparr>model_id = ''org/llama-x'', lora_id = Some '''', platform = ''rk3588'', qtype = ''w8a8'',
      hybrid_rate = ''0.0'', library_type = ''HF'', optimization = 1\<rparr>
   \<and> build_vars (llama_request (Finite 0)) = Inr llama_vars
   \<and> export_path llama_vars @ export_name llama_vars @ ''.rkllm'' \<noteq>
       ''./models/org-llama-x-rk3588/llama-x-rk3588-w8a8-opt-1-hybrid-ratio-0.0.rkllm''
   \<and> export_path llama_vars @ export_name llama_vars @ ''.rkllm'' =
       ''./models/llama-x-rk3588/llama-x-rk3588-w8a8-opt-1-hybrid-ratio-0.0.rkllm''"
proof -
  have "export_path llama_vars @ export_name llama_vars @ ''.rkllm'' \<noteq>
       ''./models/org-llama-x-rk3588/llama-x-rk3588-w8a8-opt-1-hybrid-ratio-0.0.rkllm''"
    and "export_path llama_vars @ export_name llama_vars @ ''.rkllm'' =
       ''./models/llama-x-rk3588/llama-x-rk3588-w8a8-opt-1-hybrid-ratio-0.0.rkllm''"
    by (simp_all add: llama_vars_def)
  with llama_vars llama_request_fields show ?thesis by blast
qed

end
